theory Spec2Isabelle
  imports Main
begin

section \<open>Platform built-ins used by the service layer\<close>

subsection \<open>Number and string helpers\<close>

text \<open>
  JavaScript's \<open>Number.prototype.toString\<close> on a non-negative integer and
  \<open>String.prototype.padStart(n, '0')\<close>.
\<close>

definition digit_char :: "nat \<Rightarrow> char" where
  "digit_char n = char_of (48 + n)"

fun nat_toString :: "nat \<Rightarrow> string" where
  "nat_toString n =
     (if n < 10 then [digit_char n] else nat_toString (n div 10) @ [digit_char (n mod 10)])"

definition int_toString :: "int \<Rightarrow> string" where
  "int_toString i = (if i < 0 then CHR ''-'' # nat_toString (nat (- i)) else nat_toString (nat i))"

definition padStart :: "nat \<Rightarrow> char \<Rightarrow> string \<Rightarrow> string" where
  "padStart n c s = replicate (n - length s) c @ s"

definition startsWith :: "string \<Rightarrow> string \<Rightarrow> bool" where
  "startsWith s p = (take (length p) s = p)"

subsection \<open>ECMAScript Date\<close>

text \<open>
  A valid \<open>Date\<close> is its time value: milliseconds since 1970-01-01T00:00:00Z.
  The calendar functions are the ECMAScript ones (\<open>Day\<close>, \<open>TimeWithinDay\<close>,
  \<open>YearFromTime\<close>, \<open>MonthFromTime\<close>, \<open>DateFromTime\<close>, \<open>MakeDay\<close>), computed
  with the usual closed form for the proleptic Gregorian calendar.
\<close>

definition msPerDay :: int where
  "msPerDay = 86400000"

definition Day :: "int \<Rightarrow> int" where
  "Day t = t div msPerDay"

definition TimeWithinDay :: "int \<Rightarrow> int" where
  "TimeWithinDay t = t mod msPerDay"

text \<open>Day number to (year, month 1..12, day of month 1..31).\<close>

definition civil_from_days :: "int \<Rightarrow> int \<times> int \<times> int" where
  "civil_from_days z0 =
     (let z = z0 + 719468;
          era = z div 146097;
          doe = z - era * 146097;
          yoe = (doe - doe div 1460 + doe div 36524 - doe div 146096) div 365;
          y = yoe + era * 400;
          doy = doe - (365 * yoe + yoe div 4 - yoe div 100);
          mp = (5 * doy + 2) div 153;
          d = doy - (153 * mp + 2) div 5 + 1;
          m = (if mp < 10 then mp + 3 else mp - 9)
      in (if m \<le> 2 then y + 1 else y, m, d))"

text \<open>(year, month 1..12, day of month) to day number; the day may lie outside the month.\<close>

definition days_from_civil :: "int \<Rightarrow> int \<Rightarrow> int \<Rightarrow> int" where
  "days_from_civil y0 m d =
     (let y = (if m \<le> 2 then y0 - 1 else y0);
          era = y div 400;
          yoe = y - era * 400;
          doy = (153 * (if m > 2 then m - 3 else m + 9) + 2) div 5 + d - 1;
          doe = yoe * 365 + yoe div 4 - yoe div 100 + doy
      in era * 146097 + doe - 719468)"

definition YearFromTime :: "int \<Rightarrow> int" where
  "YearFromTime t = fst (civil_from_days (Day t))"

definition MonthFromTime :: "int \<Rightarrow> int" where
  "MonthFromTime t = fst (snd (civil_from_days (Day t))) - 1"

definition DateFromTime :: "int \<Rightarrow> int" where
  "DateFromTime t = snd (snd (civil_from_days (Day t)))"

definition MakeDay :: "int \<Rightarrow> int \<Rightarrow> int \<Rightarrow> int" where
  "MakeDay year month date =
     days_from_civil (year + month div 12) (month mod 12 + 1) 1 + date - 1"

definition MakeDate :: "int \<Rightarrow> int \<Rightarrow> int" where
  "MakeDate day time = day * msPerDay + time"

definition getUTCFullYear :: "int \<Rightarrow> int" where
  "getUTCFullYear t = YearFromTime t"

definition getUTCMonth :: "int \<Rightarrow> int" where
  "getUTCMonth t = MonthFromTime t"

definition getUTCDate :: "int \<Rightarrow> int" where
  "getUTCDate t = DateFromTime t"

text \<open>
  The host's time zone: the offset of local time from UTC in milliseconds, looked up at
  a UTC instant (\<open>LocalTZA(t, true)\<close>) and at a local wall-clock time
  (\<open>LocalTZA(t, false)\<close>).
\<close>

record zone =
  offset_at_utc :: "int \<Rightarrow> int"
  offset_at_local :: "int \<Rightarrow> int"

definition LocalTime :: "zone \<Rightarrow> int \<Rightarrow> int" where
  "LocalTime z t = t + offset_at_utc z t"

definition UTC_of_local :: "zone \<Rightarrow> int \<Rightarrow> int" where
  "UTC_of_local z t = t - offset_at_local z t"

definition getDate :: "zone \<Rightarrow> int \<Rightarrow> int" where
  "getDate z t = DateFromTime (LocalTime z t)"

definition setDate :: "zone \<Rightarrow> int \<Rightarrow> int \<Rightarrow> int" where
  "setDate z t dt =
     (let lt = LocalTime z t;
          newDate = MakeDate (MakeDay (YearFromTime lt) (MonthFromTime lt) dt) (TimeWithinDay lt)
      in UTC_of_local z newDate)"

text \<open>
  \<open>Date.prototype.toISOString\<close>: \<open>YYYY-MM-DDTHH:mm:ss.sssZ\<close>, with the
  six-digit signed year outside 0..9999.
\<close>

definition pad_nat :: "nat \<Rightarrow> int \<Rightarrow> string" where
  "pad_nat n i = padStart n (CHR ''0'') (nat_toString (nat i))"

definition iso_year :: "int \<Rightarrow> string" where
  "iso_year y =
     (if 0 \<le> y \<and> y \<le> 9999 then pad_nat 4 y
      else if y < 0 then CHR ''-'' # pad_nat 6 (- y)
      else CHR ''+'' # pad_nat 6 y)"

definition toISOString :: "int \<Rightarrow> string" where
  "toISOString t =
     (let w = TimeWithinDay t
      in iso_year (YearFromTime t) @ ''-'' @ pad_nat 2 (MonthFromTime t + 1) @ ''-''
         @ pad_nat 2 (DateFromTime t) @ ''T'' @ pad_nat 2 (w div 3600000) @ '':''
         @ pad_nat 2 (w mod 3600000 div 60000) @ '':'' @ pad_nat 2 (w mod 60000 div 1000)
         @ ''.'' @ pad_nat 3 (w mod 1000) @ ''Z'')"

text \<open>
  \<open>new Date(string)\<close> for a string in the ECMAScript date-time string format, read
  the way the V8 engine reads it:
  \<^item> the year is four digits, or a sign and six digits (\<open>-000000\<close> is refused);
  \<^item> \<open>-MM\<close> and then \<open>-DD\<close> may follow, defaulting to 1; the month must be
    1..12 and the day 1..31, and a day past the end of its month runs into the next one;
  \<^item> the string may end there (a date-only form, read as UTC), or go on with \<open>T\<close>,
    \<open>HH:mm\<close>, optionally \<open>:ss\<close>, optionally a fraction of any length (its first
    three digits are the milliseconds), and then optionally \<open>Z\<close> or an offset
    \<open>+HH:mm\<close>, \<open>-HH:mm\<close>, \<open>+HHmm\<close>, \<open>-HHmm\<close>; hour 24 is accepted with
    zero minutes, seconds and milliseconds;
  \<^item> a date-time form without \<open>Z\<close> or offset is local time in the host's zone;
  \<^item> a time value beyond 8.64e15 milliseconds either side of the epoch is invalid.
  \<open>None\<close> is an invalid date. A string outside this format goes to the engine's
  legacy parser, whose heuristics are implementation-defined and not modelled: it is read
  as an invalid date.
\<close>

definition is_digit :: "char \<Rightarrow> bool" where
  "is_digit c = ((48::nat) \<le> of_char c \<and> (of_char c :: nat) \<le> 57)"

definition digits_int :: "string \<Rightarrow> int" where
  "digits_int s = foldl (\<lambda>a c. 10 * a + (int (of_char c) - 48)) 0 s"

text \<open>Exactly \<open>n\<close> digits at the front of the string: their value and the rest.\<close>

definition fixed_digits :: "nat \<Rightarrow> string \<Rightarrow> (int \<times> string) option" where
  "fixed_digits n s =
     (if n \<le> length s \<and> list_all is_digit (take n s)
      then Some (digits_int (take n s), drop n s) else None)"

definition parse_year :: "string \<Rightarrow> (int \<times> string) option" where
  "parse_year s =
     (case s of
        [] \<Rightarrow> None
      | c # r \<Rightarrow>
          if c = CHR ''+'' then fixed_digits 6 r
          else if c = CHR ''-''
          then (case fixed_digits 6 r of
                  None \<Rightarrow> None
                | Some (y, r') \<Rightarrow> if y = 0 then None else Some (- y, r'))
          else fixed_digits 4 s)"

text \<open>An optional \<open>-NN\<close>: the number (1 when absent), whether it was there, the rest.\<close>

definition parse_dash_field :: "string \<Rightarrow> (int \<times> bool \<times> string) option" where
  "parse_dash_field s =
     (case s of
        c # r \<Rightarrow>
          if c = CHR ''-''
          then (case fixed_digits 2 r of None \<Rightarrow> None | Some (v, r') \<Rightarrow> Some (v, True, r'))
          else Some (1, False, s)
      | [] \<Rightarrow> Some (1, False, s))"

text \<open>The digits of a fraction: the milliseconds its first three digits give.\<close>

definition fraction_ms :: "string \<Rightarrow> int" where
  "fraction_ms ds = digits_int (take 3 (ds @ ''00''))"

text \<open>
  \<open>HH:mm[:ss[.fff]]\<close>: the milliseconds within the day and the rest, \<open>None\<close> when
  the shape or a value is wrong.
\<close>

definition parse_time :: "string \<Rightarrow> (int \<times> string) option" where
  "parse_time s =
     (case fixed_digits 2 s of
        None \<Rightarrow> None
      | Some (h, r1) \<Rightarrow>
          (case r1 of
             [] \<Rightarrow> None
           | c1 # r2 \<Rightarrow>
               if c1 \<noteq> CHR '':'' then None
               else
                 (case fixed_digits 2 r2 of
                    None \<Rightarrow> None
                  | Some (mi, r3) \<Rightarrow>
                      (case (case r3 of
                               c3 # r4 \<Rightarrow>
                                 if c3 = CHR '':''
                                 then (case fixed_digits 2 r4 of
                                         None \<Rightarrow> None
                                       | Some (sec, r5) \<Rightarrow>
                                           (case r5 of
                                              c5 # r6 \<Rightarrow>
                                                if c5 = CHR ''.''
                                                then (let ds = takeWhile is_digit r6
                                                      in if ds = [] then None
                                                         else Some (sec, fraction_ms ds,
                                                                    dropWhile is_digit r6))
                                                else Some (sec, 0, r5)
                                            | [] \<Rightarrow> Some (sec, 0, r5)))
                                 else Some (0, 0, r3)
                             | [] \<Rightarrow> Some (0, 0, r3)) of
                         None \<Rightarrow> None
                       | Some (sec, ms, rest) \<Rightarrow>
                           if (h \<le> 23 \<or> (h = 24 \<and> mi = 0 \<and> sec = 0 \<and> ms = 0))
                              \<and> mi \<le> 59 \<and> sec \<le> 59
                           then Some (h * 3600000 + mi * 60000 + sec * 1000 + ms, rest)
                           else None))))"

text \<open>
  What follows the time, up to the end of the string: nothing (local time), \<open>Z\<close>,
  or an offset, as the milliseconds local time is ahead of UTC.
\<close>

datatype time_zone_part = Local_time | Offset_ms int

definition parse_offset :: "string \<Rightarrow> time_zone_part option" where
  "parse_offset s =
     (case s of
        [] \<Rightarrow> Some Local_time
      | c # r \<Rightarrow>
          if c = CHR ''Z'' then (if r = [] then Some (Offset_ms 0) else None)
          else if c = CHR ''+'' \<or> c = CHR ''-''
          then
            (case (case fixed_digits 4 r of
                     Some (hhmm, r') \<Rightarrow> Some (hhmm div 100, hhmm mod 100, r')
                   | None \<Rightarrow>
                       (case fixed_digits 2 r of
                          None \<Rightarrow> None
                        | Some (hh, r1) \<Rightarrow>
                            (case r1 of
                               [] \<Rightarrow> None
                             | c1 # r2 \<Rightarrow>
                                 if c1 \<noteq> CHR '':'' then None
                                 else (case fixed_digits 2 r2 of
                                         None \<Rightarrow> None
                                       | Some (mm, r3) \<Rightarrow> Some (hh, mm, r3))))) of
               None \<Rightarrow> None
             | Some (hh, mm, rest) \<Rightarrow>
                 if rest = [] \<and> hh \<le> 23 \<and> mm \<le> 59
                 then Some (Offset_ms ((if c = CHR ''-'' then - 1 else 1) * (hh * 60 + mm) * 60000))
                 else None)
          else None)"

definition TimeClip :: "int \<Rightarrow> int option" where
  "TimeClip t = (if - 8640000000000000 \<le> t \<and> t \<le> 8640000000000000 then Some t else None)"

definition Date_parse :: "zone \<Rightarrow> string \<Rightarrow> int option" where
  "Date_parse z s =
     (case parse_year s of
        None \<Rightarrow> None
      | Some (y, r1) \<Rightarrow>
          (case parse_dash_field r1 of
             None \<Rightarrow> None
           | Some (mo, has_month, r2) \<Rightarrow>
               (case (if has_month then parse_dash_field r2 else Some (1, False, r2)) of
                  None \<Rightarrow> None
                | Some (d, has_day, r3) \<Rightarrow>
                    if \<not> (1 \<le> mo \<and> mo \<le> 12 \<and> 1 \<le> d \<and> d \<le> 31) then None
                    else
                      (case r3 of
                         [] \<Rightarrow> TimeClip (MakeDate (days_from_civil y mo d) 0)
                       | c # r4 \<Rightarrow>
                           if c \<noteq> CHR ''T'' then None
                           else
                             (case parse_time r4 of
                                None \<Rightarrow> None
                              | Some (tm, r5) \<Rightarrow>
                                  (case parse_offset r5 of
                                     None \<Rightarrow> None
                                   | Some Local_time \<Rightarrow>
                                       TimeClip (UTC_of_local z (MakeDate (days_from_civil y mo d) tm))
                                   | Some (Offset_ms off) \<Rightarrow>
                                       TimeClip (MakeDate (days_from_civil y mo d) tm - off)))))))"

section \<open>The document store\<close>

subsection \<open>Documents\<close>

text \<open>
  A \<open>createdAt\<close> field holds either a backend \<open>Timestamp\<close> (what
  \<open>serverTimestamp()\<close> resolves to; its \<open>toDate()\<close> time value) or a string.
\<close>

datatype stored_time = Timestamp int | IsoString string

text \<open>
  The four-field object \<open>{ id, name, username, avatarUrl }\<close> written for group
  members, notification actors and friend-request parties. The store compares such maps
  field by field, whatever the order of the literal.
\<close>

record author =
  author_id :: string
  author_name :: string
  author_username :: string
  author_avatarUrl :: string

record notification_settings =
  likes :: "bool option"
  comments_setting :: "bool option"
  friendRequests_setting :: "bool option"
  campaignUpdates :: "bool option"
  groupPosts :: "bool option"

record user_data =
  user_name :: string
  user_username :: string
  user_avatarUrl :: string
  friendIds :: "string list"
  notificationSettings :: "notification_settings option"

text \<open>A \<open>User\<close> as \<open>docToUser\<close> returns it: the document's data with its id.\<close>

record user = user_data +
  user_id :: string

record friend_request =
  request_from :: author
  request_to :: author
  status :: "string option"
  request_createdAt :: stored_time

datatype notification_type =
    Like | Comment | Mention | Friend_request | Friend_request_approved
  | Campaign_approved | Campaign_rejected | Admin_announcement | Admin_warning
  | Group_post | Group_join_request | Group_request_approved | Other_type string

record notification =
  recipientId :: "string option"
  notification_type :: notification_type
  notification_user :: author
  read :: bool
  notification_createdAt :: stored_time
  notification_post :: "(string \<times> string) option"
  notification_comment :: "(string \<times> string) option"
  notification_groupId :: "string option"
  notification_groupName :: "string option"
  campaignName :: "string option"
  rejectionReason :: "string option"
  notification_message :: "string option"

record poll_option =
  option_text :: string
  votes :: int
  votedBy :: "string list"

record poll =
  question :: string
  options :: "poll_option list"

record comment =
  comment_id :: string
  comment_author :: author
  comment_text :: "string option"
  comment_type :: string
  comment_reactions :: "(string \<rightharpoonup> string) option"
  comment_createdAt :: "stored_time option"

record post =
  post_author :: author
  caption :: "string option"
  reactions :: "(string \<rightharpoonup> string) option"
  comments :: "comment list option"
  commentCount :: "int option"
  createdAt :: "stored_time option"
  poll :: "poll option"

text \<open>A \<open>Post\<close> as \<open>docToPost\<close> returns it.\<close>

record post_with_id = post +
  post_id :: string

record join_request =
  request_user :: author
  answers :: "string list"

record group =
  creator :: author
  group_name :: string
  description :: string
  coverPhotoUrl :: string
  privacy :: string
  requiresApproval :: bool
  category :: string
  members :: "author list"
  memberCount :: int
  admins :: "author list"
  moderators :: "author list"
  joinRequests :: "join_request list option"
  pinnedPostId :: "string option"
  group_createdAt :: stored_time

subsection \<open>Collections, backend calls and errors\<close>

text \<open>
  The collections the modelled operations touch. \<open>userNotifications\<close> is the
  sub-collection \<open>users/{uid}/notifications\<close>, \<open>shards\<close> the top-level daily
  collections \<open>notifications_YYYY_MM_DD\<close>.
\<close>

record db =
  users :: "string \<rightharpoonup> user_data"
  usernames :: "string \<rightharpoonup> string"
  friendRequests :: "string \<rightharpoonup> friend_request"
  userNotifications :: "string \<rightharpoonup> (string \<rightharpoonup> notification)"
  posts :: "string \<rightharpoonup> post"
  groups :: "string \<rightharpoonup> group"
  shards :: "string \<rightharpoonup> (string \<rightharpoonup> notification)"

text \<open>The SDK entry points, each with the collection it is called on.\<close>

datatype call =
    GetDoc string | GetDocs string | OnSnapshot string
  | SetDoc string | UpdateDoc string | AddDoc string | DeleteDoc string
  | BatchCommit | RunTransaction

text \<open>The backend: the stored documents and the SDK calls issued so far, oldest first.\<close>

record backend =
  store :: db
  calls :: "call list"

datatype error = Thrown string | NotFound string

definition issue :: "call \<Rightarrow> backend \<Rightarrow> backend" where
  "issue c b = b\<lparr>calls := calls b @ [c]\<rparr>"

subsection \<open>Writes and field transforms\<close>

text \<open>
  A write is a partial update of the store: \<open>None\<close> when its precondition fails
  (\<open>update\<close> requires the document to exist; \<open>set\<close> and \<open>delete\<close> never fail).
\<close>

type_synonym doc_write = "db \<Rightarrow> db option"

definition update_user :: "string \<Rightarrow> (user_data \<Rightarrow> user_data) \<Rightarrow> doc_write" where
  "update_user k f d =
     (case users d k of None \<Rightarrow> None | Some u \<Rightarrow> Some (d\<lparr>users := (users d)(k \<mapsto> f u)\<rparr>))"

definition update_post :: "string \<Rightarrow> (post \<Rightarrow> post) \<Rightarrow> doc_write" where
  "update_post k f d =
     (case posts d k of None \<Rightarrow> None | Some p \<Rightarrow> Some (d\<lparr>posts := (posts d)(k \<mapsto> f p)\<rparr>))"

definition update_group :: "string \<Rightarrow> (group \<Rightarrow> group) \<Rightarrow> doc_write" where
  "update_group k f d =
     (case groups d k of None \<Rightarrow> None | Some g \<Rightarrow> Some (d\<lparr>groups := (groups d)(k \<mapsto> f g)\<rparr>))"

definition set_friendRequest :: "string \<Rightarrow> friend_request \<Rightarrow> doc_write" where
  "set_friendRequest k r d = Some (d\<lparr>friendRequests := (friendRequests d)(k \<mapsto> r)\<rparr>)"

definition delete_friendRequest :: "string \<Rightarrow> doc_write" where
  "delete_friendRequest k d = Some (d\<lparr>friendRequests := (friendRequests d)(k := None)\<rparr>)"

definition sub_collection :: "(string \<rightharpoonup> (string \<rightharpoonup> 'a)) \<Rightarrow> string \<Rightarrow> (string \<rightharpoonup> 'a)" where
  "sub_collection m k = (case m k of None \<Rightarrow> Map.empty | Some c \<Rightarrow> c)"

definition set_userNotification :: "string \<Rightarrow> string \<Rightarrow> notification \<Rightarrow> doc_write" where
  "set_userNotification uid nid n d =
     Some (d\<lparr>userNotifications :=
             (userNotifications d)(uid \<mapsto> (sub_collection (userNotifications d) uid)(nid \<mapsto> n))\<rparr>)"

definition set_group :: "string \<Rightarrow> group \<Rightarrow> doc_write" where
  "set_group k g d = Some (d\<lparr>groups := (groups d)(k \<mapsto> g)\<rparr>)"

definition set_shard_doc :: "string \<Rightarrow> string \<Rightarrow> notification \<Rightarrow> doc_write" where
  "set_shard_doc c nid n d =
     Some (d\<lparr>shards := (shards d)(c \<mapsto> (sub_collection (shards d) c)(nid \<mapsto> n))\<rparr>)"

definition update_shard_doc :: "string \<Rightarrow> string \<Rightarrow> (notification \<Rightarrow> notification) \<Rightarrow> doc_write" where
  "update_shard_doc c nid f d =
     (case sub_collection (shards d) c nid of
        None \<Rightarrow> None
      | Some n \<Rightarrow> Some (d\<lparr>shards := (shards d)(c \<mapsto> (sub_collection (shards d) c)(nid \<mapsto> f n))\<rparr>))"

text \<open>\<open>arrayUnion\<close>, \<open>arrayRemove\<close> and \<open>increment\<close> as the backend applies them.\<close>

definition arrayUnion :: "'a \<Rightarrow> 'a list \<Rightarrow> 'a list" where
  "arrayUnion x xs = (if x \<in> set xs then xs else xs @ [x])"

definition arrayRemove :: "'a \<Rightarrow> 'a list \<Rightarrow> 'a list" where
  "arrayRemove x xs = filter (\<lambda>y. y \<noteq> x) xs"

definition increment :: "int \<Rightarrow> int \<Rightarrow> int" where
  "increment n c = c + n"

text \<open>All writes of a batch or transaction apply, in order, or none does.\<close>

fun commit :: "doc_write list \<Rightarrow> db \<Rightarrow> db option" where
  "commit [] d = Some d"
| "commit (w # ws) d = (case w d of None \<Rightarrow> None | Some d' \<Rightarrow> commit ws d')"

subsection \<open>SDK entry points\<close>

definition getDoc :: "string \<Rightarrow> (db \<Rightarrow> 'k \<rightharpoonup> 'v) \<Rightarrow> 'k \<Rightarrow> backend \<Rightarrow> 'v option \<times> backend" where
  "getDoc c coll k b = (coll (store b) k, issue (GetDoc c) b)"

definition plain_write :: "call \<Rightarrow> string \<Rightarrow> doc_write \<Rightarrow> backend \<Rightarrow> (error + unit) \<times> backend" where
  "plain_write c path w b =
     (case w (store b) of
        None \<Rightarrow> (Inl (NotFound path), issue c b)
      | Some d \<Rightarrow> (Inr (), issue c (b\<lparr>store := d\<rparr>)))"

definition updateDoc :: "string \<Rightarrow> doc_write \<Rightarrow> backend \<Rightarrow> (error + unit) \<times> backend" where
  "updateDoc c w b = plain_write (UpdateDoc c) c w b"

definition setDoc :: "string \<Rightarrow> doc_write \<Rightarrow> backend \<Rightarrow> (error + unit) \<times> backend" where
  "setDoc c w b = plain_write (SetDoc c) c w b"

definition addDoc :: "string \<Rightarrow> doc_write \<Rightarrow> backend \<Rightarrow> (error + unit) \<times> backend" where
  "addDoc c w b = plain_write (AddDoc c) c w b"

text \<open>
  \<open>runTransaction(db, body)\<close>: the body reads the store and either throws or returns
  with its buffered writes and a result. The writes are committed together; a throw or a
  failed commit leaves the store as it was.
\<close>

definition runTransaction ::
  "(db \<Rightarrow> error + doc_write list \<times> 'a) \<Rightarrow> backend \<Rightarrow> (error + 'a) \<times> backend" where
  "runTransaction body b =
     (case body (store b) of
        Inl e \<Rightarrow> (Inl e, issue RunTransaction b)
      | Inr (ws, r) \<Rightarrow>
          (case commit ws (store b) of
             None \<Rightarrow> (Inl (NotFound ''transaction''), issue RunTransaction b)
           | Some d \<Rightarrow> (Inr r, issue RunTransaction (b\<lparr>store := d\<rparr>))))"

text \<open>\<open>writeBatch(db)\<close> with its updates, then \<open>batch.commit()\<close>.\<close>

definition batch_commit :: "doc_write list \<Rightarrow> backend \<Rightarrow> (error + unit) \<times> backend" where
  "batch_commit ws b =
     (case commit ws (store b) of
        None \<Rightarrow> (Inl (NotFound ''batch''), issue BatchCommit b)
      | Some d \<Rightarrow> (Inr (), issue BatchCommit (b\<lparr>store := d\<rparr>)))"

section \<open>The service layer (services/firebaseService.ts)\<close>

subsection \<open>Document converters\<close>

definition docToUser :: "string \<Rightarrow> user_data \<Rightarrow> user" where
  "docToUser k d =
     \<lparr>user_name = user_name d, user_username = user_username d,
      user_avatarUrl = user_avatarUrl d, friendIds = friendIds d,
      notificationSettings = notificationSettings d, user_id = k\<rparr>"

text \<open>
  \<open>clock n\<close> is what the \<open>n\<close>-th evaluation of \<open>new Date()\<close> during a call
  returns, counting from 0. \<open>docToPost\<close> evaluates \<open>new Date()\<close> only where a
  stored \<open>createdAt\<close> is not a \<open>Timestamp\<close>: first for the post, then for the
  comments in order, so each such field takes the next reading.
\<close>

definition is_Timestamp :: "stored_time option \<Rightarrow> bool" where
  "is_Timestamp c = (case c of Some (Timestamp _) \<Rightarrow> True | _ \<Rightarrow> False)"

definition createdAt_iso :: "stored_time option \<Rightarrow> int \<Rightarrow> stored_time option" where
  "createdAt_iso c now =
     (case c of Some (Timestamp t) \<Rightarrow> Some (IsoString (toISOString t))
              | _ \<Rightarrow> Some (IsoString (toISOString now)))"

text \<open>The comments' \<open>createdAt\<close>, with \<open>n\<close> clock readings already taken.\<close>

fun comments_iso :: "(nat \<Rightarrow> int) \<Rightarrow> nat \<Rightarrow> comment list \<Rightarrow> comment list" where
  "comments_iso clock n [] = []"
| "comments_iso clock n (c # cs) =
     c\<lparr>comment_createdAt := createdAt_iso (comment_createdAt c) (clock n)\<rparr>
       # comments_iso clock (if is_Timestamp (comment_createdAt c) then n else Suc n) cs"

definition docToPost :: "(nat \<Rightarrow> int) \<Rightarrow> string \<Rightarrow> post \<Rightarrow> post_with_id" where
  "docToPost clock k p =
     \<lparr>post_author = post_author p, caption = caption p,
      reactions = Some (case reactions p of None \<Rightarrow> Map.empty | Some m \<Rightarrow> m),
      comments = Some (comments_iso clock (if is_Timestamp (createdAt p) then 0 else 1)
                         (case comments p of None \<Rightarrow> [] | Some cs \<Rightarrow> cs)),
      commentCount = Some (case commentCount p of None \<Rightarrow> 0 | Some n \<Rightarrow> n),
      createdAt = createdAt_iso (createdAt p) (clock 0),
      poll = poll p, post_id = k\<rparr>"

subsection \<open>One-shot reads\<close>

definition lower_char :: "char \<Rightarrow> char" where
  "lower_char c =
     (if (65::nat) \<le> of_char c \<and> (of_char c :: nat) \<le> 90 then char_of (of_char c + (32::nat)) else c)"

definition toLowerCase :: "string \<Rightarrow> string" where
  "toLowerCase s = map lower_char s"

definition isUsernameTaken :: "string \<Rightarrow> backend \<Rightarrow> bool \<times> backend" where
  "isUsernameTaken username b =
     (let (usernameDoc, b1) = getDoc ''usernames'' usernames (toLowerCase username) b
      in (usernameDoc \<noteq> None, b1))"

definition getUserProfileById :: "string \<Rightarrow> backend \<Rightarrow> user option \<times> backend" where
  "getUserProfileById uid b =
     (let (userDoc, b1) = getDoc ''users'' users uid b
      in (map_option (docToUser uid) userDoc, b1))"

subsection \<open>Friends\<close>

definition author_of_user :: "user \<Rightarrow> author" where
  "author_of_user u =
     \<lparr>author_id = user_id u, author_name = user_name u,
      author_username = user_username u, author_avatarUrl = user_avatarUrl u\<rparr>"

definition request_key :: "string \<Rightarrow> string \<Rightarrow> string" where
  "request_key a c = a @ ''_'' @ c"

text \<open>
  \<open>addFriend\<close> returns \<open>{ success, reason }\<close>. \<open>now\<close> is what
  \<open>serverTimestamp()\<close> resolves to.
\<close>

definition addFriend :: "string \<Rightarrow> string \<Rightarrow> int \<Rightarrow> backend \<Rightarrow> (bool \<times> string option) \<times> backend" where
  "addFriend currentUserId targetUserId now b =
     (if currentUserId = [] then ((False, Some ''not_signed_in''), b)
      else
        let (sender, b1) = getUserProfileById currentUserId b;
            (receiver, b2) = getUserProfileById targetUserId b1
        in case (sender, receiver) of
             (Some s, Some r) \<Rightarrow>
               (case setDoc ''friendRequests''
                       (set_friendRequest (request_key currentUserId targetUserId)
                          \<lparr>request_from = author_of_user s, request_to = author_of_user r,
                           status = Some ''pending'', request_createdAt = Timestamp now\<rparr>) b2 of
                  (Inr _, b3) \<Rightarrow> ((True, None), b3)
                | (Inl _, b3) \<Rightarrow> ((False, Some ''permission_denied''), b3))
           | _ \<Rightarrow> ((False, Some ''user_not_found''), b2))"

text \<open>
  The transaction body of \<open>acceptFriendRequest\<close>. \<open>nid\<close> is the id the SDK
  generated for the new notification document.
\<close>

definition acceptFriendRequest_body ::
  "string \<Rightarrow> string \<Rightarrow> string \<Rightarrow> int \<Rightarrow> db \<Rightarrow> error + doc_write list \<times> unit" where
  "acceptFriendRequest_body currentUserId requestingUserId nid now d =
     (case friendRequests d (request_key requestingUserId currentUserId) of
        None \<Rightarrow> Inl (Thrown ''Friend request not found or already handled.'')
      | Some requestDoc \<Rightarrow>
          if status requestDoc \<noteq> Some ''pending''
          then Inl (Thrown ''Friend request not found or already handled.'')
          else
            (case users d currentUserId of
               None \<Rightarrow> Inl (Thrown ''Current user profile not found.'')
             | Some currentUserData \<Rightarrow>
                 Inr ([update_user currentUserId
                         (\<lambda>u. u\<lparr>friendIds := arrayUnion requestingUserId (friendIds u)\<rparr>),
                       update_user requestingUserId
                         (\<lambda>u. u\<lparr>friendIds := arrayUnion currentUserId (friendIds u)\<rparr>),
                       set_userNotification requestingUserId nid
                         \<lparr>recipientId = None, notification_type = Friend_request_approved,
                          notification_user =
                            \<lparr>author_id = currentUserId, author_name = user_name currentUserData,
                             author_username = user_username currentUserData,
                             author_avatarUrl = user_avatarUrl currentUserData\<rparr>,
                          read = False, notification_createdAt = Timestamp now,
                          notification_post = None, notification_comment = None,
                          notification_groupId = None, notification_groupName = None,
                          campaignName = None, rejectionReason = None,
                          notification_message = None\<rparr>,
                       delete_friendRequest (request_key requestingUserId currentUserId)], ())))"

definition acceptFriendRequest ::
  "string \<Rightarrow> string \<Rightarrow> string \<Rightarrow> int \<Rightarrow> backend \<Rightarrow> (error + unit) \<times> backend" where
  "acceptFriendRequest currentUserId requestingUserId nid now b =
     runTransaction (acceptFriendRequest_body currentUserId requestingUserId nid now) b"

datatype FriendshipStatus = FRIENDS | REQUEST_SENT | PENDING_APPROVAL | NOT_FRIENDS

definition checkFriendshipStatus :: "string \<Rightarrow> string \<Rightarrow> backend \<Rightarrow> FriendshipStatus \<times> backend" where
  "checkFriendshipStatus currentUserId profileUserId b =
     (let (u, b1) = getUserProfileById currentUserId b
      in if (case u of None \<Rightarrow> False | Some usr \<Rightarrow> profileUserId \<in> set (friendIds usr))
         then (FRIENDS, b1)
         else
           let (sentSnap, b2) = getDoc ''friendRequests'' friendRequests
                                  (request_key currentUserId profileUserId) b1;
               (receivedSnap, b3) = getDoc ''friendRequests'' friendRequests
                                  (request_key profileUserId currentUserId) b2
           in case sentSnap of
                Some r \<Rightarrow> (if status r = Some ''accepted'' then FRIENDS else REQUEST_SENT, b3)
              | None \<Rightarrow>
                  (case receivedSnap of
                     Some r \<Rightarrow> (if status r = Some ''accepted'' then FRIENDS else PENDING_APPROVAL, b3)
                   | None \<Rightarrow> (NOT_FRIENDS, b3)))"

subsection \<open>Reactions\<close>

text \<open>
  The toggle both reaction operations apply to a copy of the reactions object: delete the
  user's key when it already holds the new reaction, otherwise assign it.
\<close>

definition toggle_reaction :: "(string \<rightharpoonup> string) \<Rightarrow> string \<Rightarrow> string \<Rightarrow> (string \<rightharpoonup> string)" where
  "toggle_reaction rs userId newReaction =
     (if rs userId = Some newReaction then rs(userId := None) else rs(userId \<mapsto> newReaction))"

definition or_empty :: "('k \<rightharpoonup> 'v) option \<Rightarrow> ('k \<rightharpoonup> 'v)" where
  "or_empty m = (case m of None \<Rightarrow> Map.empty | Some r \<Rightarrow> r)"

definition reactToPost_body ::
  "string \<Rightarrow> string \<Rightarrow> string \<Rightarrow> db \<Rightarrow> error + doc_write list \<times> unit" where
  "reactToPost_body postId userId newReaction d =
     (case posts d postId of
        None \<Rightarrow> Inl (Thrown ''Post does not exist!'')
      | Some postData \<Rightarrow>
          Inr ([update_post postId
                  (\<lambda>p. p\<lparr>reactions :=
                           Some (toggle_reaction (or_empty (reactions postData)) userId newReaction)\<rparr>)],
               ()))"

definition reactToPost :: "string \<Rightarrow> string \<Rightarrow> string \<Rightarrow> backend \<Rightarrow> bool \<times> backend" where
  "reactToPost postId userId newReaction b =
     (case runTransaction (reactToPost_body postId userId newReaction) b of
        (Inr _, b1) \<Rightarrow> (True, b1)
      | (Inl _, b1) \<Rightarrow> (False, b1))"

fun findIndex :: "('a \<Rightarrow> bool) \<Rightarrow> 'a list \<Rightarrow> nat option" where
  "findIndex P [] = None"
| "findIndex P (x # xs) = (if P x then Some 0 else map_option Suc (findIndex P xs))"

definition reactToComment_body ::
  "string \<Rightarrow> string \<Rightarrow> string \<Rightarrow> string \<Rightarrow> db \<Rightarrow> error + doc_write list \<times> unit" where
  "reactToComment_body postId commentId userId newReaction d =
     (case posts d postId of
        None \<Rightarrow> Inl (Thrown ''Post does not exist!'')
      | Some postData \<Rightarrow>
          let cs = (case comments postData of None \<Rightarrow> [] | Some l \<Rightarrow> l)
          in case findIndex (\<lambda>c. comment_id c = commentId) cs of
               None \<Rightarrow> Inl (Thrown ''Comment not found!'')
             | Some commentIndex \<Rightarrow>
                 let c = cs ! commentIndex;
                     rs = toggle_reaction (or_empty (comment_reactions c)) userId newReaction
                 in Inr ([update_post postId
                            (\<lambda>p. p\<lparr>comments :=
                                     Some (list_update cs commentIndex (c\<lparr>comment_reactions := Some rs\<rparr>))\<rparr>)],
                         ()))"

definition reactToComment :: "string \<Rightarrow> string \<Rightarrow> string \<Rightarrow> string \<Rightarrow> backend \<Rightarrow> bool \<times> backend" where
  "reactToComment postId commentId userId newReaction b =
     (case runTransaction (reactToComment_body postId commentId userId newReaction) b of
        (Inr _, b1) \<Rightarrow> (True, b1)
      | (Inl _, b1) \<Rightarrow> (False, b1))"

subsection \<open>Polls\<close>

text \<open>
  The transaction body of \<open>voteOnPoll\<close>; its result is the value assigned to
  \<open>updatedPostData\<close>. \<open>optionIndex\<close> is an integer-valued number.
\<close>

definition vote_option :: "string \<Rightarrow> poll_option \<Rightarrow> poll_option" where
  "vote_option userId opt = opt\<lparr>votes := votes opt + 1, votedBy := votedBy opt @ [userId]\<rparr>"

definition voteOnPoll_body ::
  "(nat \<Rightarrow> int) \<Rightarrow> string \<Rightarrow> string \<Rightarrow> int \<Rightarrow> db \<Rightarrow> error + doc_write list \<times> post_with_id" where
  "voteOnPoll_body clock userId postId optionIndex d =
     (case posts d postId of
        None \<Rightarrow> Inl (Thrown ''Post does not exist!'')
      | Some postData \<Rightarrow>
          (case poll postData of
             None \<Rightarrow> Inl (Thrown ''This post does not have a poll.'')
           | Some pl \<Rightarrow>
               if list_ex (\<lambda>opt. userId \<in> set (votedBy opt)) (options pl)
               then Inr ([], docToPost clock postId postData)
               else if optionIndex < 0 \<or> optionIndex \<ge> int (length (options pl))
               then Inl (Thrown ''Invalid poll option index.'')
               else
                 let updatedOptions =
                       map (\<lambda>(index, opt). if int index = optionIndex then vote_option userId opt else opt)
                         (enumerate 0 (options pl));
                     updatedPoll = pl\<lparr>options := updatedOptions\<rparr>
                 in Inr ([update_post postId (\<lambda>p. p\<lparr>poll := Some updatedPoll\<rparr>)],
                         (docToPost clock postId postData)\<lparr>poll := Some updatedPoll\<rparr>)))"

definition voteOnPoll ::
  "(nat \<Rightarrow> int) \<Rightarrow> string \<Rightarrow> string \<Rightarrow> int \<Rightarrow> backend \<Rightarrow> post_with_id option \<times> backend" where
  "voteOnPoll clock userId postId optionIndex b =
     (case runTransaction (voteOnPoll_body clock userId postId optionIndex) b of
        (Inr updatedPostData, b1) \<Rightarrow> (Some updatedPostData, b1)
      | (Inl _, b1) \<Rightarrow> (None, b1))"

subsection \<open>Groups\<close>

definition createGroup ::
  "author \<Rightarrow> string \<Rightarrow> string \<Rightarrow> string \<Rightarrow> string \<Rightarrow> bool \<Rightarrow> string \<Rightarrow> string \<Rightarrow> int \<Rightarrow> int
     \<Rightarrow> backend \<Rightarrow> (error + string \<times> group) \<times> backend" where
  "createGroup cr nm descr cover priv approval cat newId serverNow now b =
     (let newGroupData =
            \<lparr>creator = cr, group_name = nm, description = descr, coverPhotoUrl = cover,
             privacy = priv, requiresApproval = approval, category = cat,
             members = [cr], memberCount = 1, admins = [cr], moderators = [],
             joinRequests = None, pinnedPostId = None, group_createdAt = Timestamp serverNow\<rparr>
      in case addDoc ''groups'' (set_group newId newGroupData) b of
           (Inr _, b1) \<Rightarrow>
             (Inr (newId, newGroupData\<lparr>group_createdAt := IsoString (toISOString now)\<rparr>), b1)
         | (Inl e, b1) \<Rightarrow> (Inl e, b1))"

definition joinGroup :: "string \<Rightarrow> string \<Rightarrow> string list \<Rightarrow> backend \<Rightarrow> (error + bool) \<times> backend" where
  "joinGroup userId groupId answrs b =
     (let (usr, b1) = getUserProfileById userId b
      in case usr of
           None \<Rightarrow> (Inr False, b1)
         | Some u \<Rightarrow>
             let memberObject = author_of_user u
             in case updateDoc ''groups''
                       (update_group groupId
                          (\<lambda>g. g\<lparr>members := arrayUnion memberObject (members g),
                                  memberCount := increment 1 (memberCount g)\<rparr>)) b1 of
                  (Inr _, b2) \<Rightarrow> (Inr True, b2)
                | (Inl e, b2) \<Rightarrow> (Inl e, b2))"

definition not_id :: "string \<Rightarrow> author \<Rightarrow> bool" where
  "not_id userId m = (author_id m \<noteq> userId)"

definition leaveGroup_body :: "string \<Rightarrow> string \<Rightarrow> db \<Rightarrow> error + doc_write list \<times> unit" where
  "leaveGroup_body userId groupId d =
     (case groups d groupId of
        None \<Rightarrow> Inl (Thrown ''Group not found'')
      | Some groupData \<Rightarrow>
          let updatedMembers = filter (not_id userId) (members groupData);
              updatedAdmins = filter (not_id userId) (admins groupData);
              updatedModerators = filter (not_id userId) (moderators groupData)
          in Inr ([update_group groupId
                     (\<lambda>g. g\<lparr>members := updatedMembers, admins := updatedAdmins,
                             moderators := updatedModerators,
                             memberCount := increment (- 1) (memberCount g)\<rparr>)], ()))"

definition leaveGroup :: "string \<Rightarrow> string \<Rightarrow> backend \<Rightarrow> bool \<times> backend" where
  "leaveGroup userId groupId b =
     (case runTransaction (leaveGroup_body userId groupId) b of
        (Inr _, b1) \<Rightarrow> (True, b1)
      | (Inl _, b1) \<Rightarrow> (False, b1))"

definition removeGroupMember_body :: "string \<Rightarrow> user \<Rightarrow> db \<Rightarrow> error + doc_write list \<times> unit" where
  "removeGroupMember_body groupId userToRemove d =
     (case groups d groupId of
        None \<Rightarrow> Inl (Thrown ''Group not found'')
      | Some groupData \<Rightarrow>
          let isAlreadyMember = list_ex (\<lambda>m. author_id m = user_id userToRemove) (members groupData);
              memberCountChange = (if isAlreadyMember then increment (- 1) else increment 0);
              updatedMembers = filter (not_id (user_id userToRemove)) (members groupData);
              updatedAdmins = filter (not_id (user_id userToRemove)) (admins groupData);
              updatedModerators = filter (not_id (user_id userToRemove)) (moderators groupData)
          in Inr ([update_group groupId
                     (\<lambda>g. g\<lparr>members := updatedMembers, admins := updatedAdmins,
                             moderators := updatedModerators,
                             memberCount := memberCountChange (memberCount g)\<rparr>)], ()))"

definition removeGroupMember :: "string \<Rightarrow> user \<Rightarrow> backend \<Rightarrow> bool \<times> backend" where
  "removeGroupMember groupId userToRemove b =
     (case runTransaction (removeGroupMember_body groupId userToRemove) b of
        (Inr _, b1) \<Rightarrow> (True, b1)
      | (Inl _, b1) \<Rightarrow> (False, b1))"

definition approveJoinRequest_body :: "string \<Rightarrow> string \<Rightarrow> db \<Rightarrow> error + doc_write list \<times> unit" where
  "approveJoinRequest_body groupId userId d =
     (case groups d groupId of
        None \<Rightarrow> Inl (Thrown ''Group not found'')
      | Some groupData \<Rightarrow>
          let jrs = (case joinRequests groupData of None \<Rightarrow> [] | Some l \<Rightarrow> l)
          in case findIndex (\<lambda>r. author_id (request_user r) = userId) jrs of
               None \<Rightarrow> Inr ([], ())
             | Some requestIndex \<Rightarrow>
                 let userToApprove = request_user (jrs ! requestIndex);
                     updatedRequests = filter (\<lambda>r. author_id (request_user r) \<noteq> userId) jrs;
                     memberObject = userToApprove
                 in Inr ([update_group groupId
                            (\<lambda>g. g\<lparr>joinRequests := Some updatedRequests,
                                    members := arrayUnion memberObject (members g),
                                    memberCount := increment 1 (memberCount g)\<rparr>)], ()))"

definition approveJoinRequest :: "string \<Rightarrow> string \<Rightarrow> backend \<Rightarrow> bool \<times> backend" where
  "approveJoinRequest groupId userId b =
     (case runTransaction (approveJoinRequest_body groupId userId) b of
        (Inr _, b1) \<Rightarrow> (True, b1)
      | (Inl _, b1) \<Rightarrow> (False, b1))"

text \<open>
  \<open>updateGroupSettings\<close> writes the defined fields of \<open>settings\<close>
  (\<open>removeUndefined\<close> drops the others); \<open>None\<close> is an undefined field.
\<close>

record group_settings =
  new_name :: "string option"
  new_description :: "string option"
  new_coverPhotoUrl :: "string option"
  new_privacy :: "string option"
  new_requiresApproval :: "bool option"
  new_category :: "string option"

definition or_else :: "'a option \<Rightarrow> 'a \<Rightarrow> 'a" where
  "or_else v old = (case v of None \<Rightarrow> old | Some x \<Rightarrow> x)"

definition apply_settings :: "group_settings \<Rightarrow> group \<Rightarrow> group" where
  "apply_settings st g =
     g\<lparr>group_name := or_else (new_name st) (group_name g),
       description := or_else (new_description st) (description g),
       coverPhotoUrl := or_else (new_coverPhotoUrl st) (coverPhotoUrl g),
       privacy := or_else (new_privacy st) (privacy g),
       requiresApproval := or_else (new_requiresApproval st) (requiresApproval g),
       category := or_else (new_category st) (category g)\<rparr>"

definition updateGroupSettings :: "string \<Rightarrow> group_settings \<Rightarrow> backend \<Rightarrow> (error + bool) \<times> backend" where
  "updateGroupSettings groupId st b =
     (case updateDoc ''groups'' (update_group groupId (apply_settings st)) b of
        (Inr _, b1) \<Rightarrow> (Inr True, b1)
      | (Inl e, b1) \<Rightarrow> (Inl e, b1))"

definition pinPost :: "string \<Rightarrow> string \<Rightarrow> backend \<Rightarrow> (error + bool) \<times> backend" where
  "pinPost groupId postId b =
     (case updateDoc ''groups'' (update_group groupId (\<lambda>g. g\<lparr>pinnedPostId := Some postId\<rparr>)) b of
        (Inr _, b1) \<Rightarrow> (Inr True, b1)
      | (Inl e, b1) \<Rightarrow> (Inl e, b1))"

subsection \<open>The CDN upload helper\<close>

definition CLOUDINARY_CLOUD_NAME :: string where
  "CLOUDINARY_CLOUD_NAME = ''deeieh2bd''"

definition CLOUDINARY_UPLOAD_PRESET :: string where
  "CLOUDINARY_UPLOAD_PRESET = ''Voicebook''"

text \<open>
  The uploaded \<open>File | Blob\<close> (its MIME type is all the helper reads), the form it is
  posted in, and what \<open>fetch\<close> then \<open>response.json()\<close> can give: a rejected
  request, or a response with its \<open>ok\<close> flag and its body, \<open>None\<close> when the body
  is not JSON. A JSON body may lack either field.
\<close>

record media_file =
  file_type :: string
  file_bytes :: string

record form_data =
  form_file :: media_file
  form_fileName :: string
  upload_preset :: string

record cloudinary_body =
  secure_url :: "string option"
  resource_type :: "string option"

datatype fetch_outcome = Rejected | Response bool "cloudinary_body option"

record upload_result =
  url :: "string option"
  result_type :: "string option"

definition resourceType_of :: "media_file \<Rightarrow> string" where
  "resourceType_of f =
     (if startsWith (file_type f) ''video'' then ''video''
      else if startsWith (file_type f) ''image'' then ''image''
      else if startsWith (file_type f) ''audio'' then ''video''
      else ''auto'')"

definition upload_endpoint :: "media_file \<Rightarrow> string" where
  "upload_endpoint f =
     ''https://api.cloudinary.com/v1_1/'' @ CLOUDINARY_CLOUD_NAME @ ''/'' @ resourceType_of f @ ''/upload''"

definition uploadMediaToCloudinary ::
  "(string \<Rightarrow> form_data \<Rightarrow> fetch_outcome) \<Rightarrow> media_file \<Rightarrow> string \<Rightarrow> error + upload_result" where
  "uploadMediaToCloudinary fetch f fileName =
     (let formData = \<lparr>form_file = f, form_fileName = fileName, upload_preset = CLOUDINARY_UPLOAD_PRESET\<rparr>
      in case fetch (upload_endpoint f) formData of
           Rejected \<Rightarrow> Inl (Thrown ''fetch rejected'')
         | Response ok body \<Rightarrow>
             if \<not> ok
             then (case body of
                     None \<Rightarrow> Inl (Thrown ''response body is not JSON'')
                   | Some errorData \<Rightarrow> Inl (Thrown ''Failed to upload media to Cloudinary''))
             else (case body of
                     None \<Rightarrow> Inl (Thrown ''response body is not JSON'')
                   | Some data \<Rightarrow> Inr \<lparr>url = secure_url data, result_type = resource_type data\<rparr>))"

section \<open>Notifications sharded by day (the sharded variant of the service)\<close>

subsection \<open>Shard names\<close>

text \<open>
  \<open>getDailyCollectionName(date: Date | string)\<close> on a host in zone \<open>z\<close>, which
  only the parsing of a string without \<open>Z\<close> or offset consults. An invalid date
  prints \<open>NaN\<close> in each position.
\<close>

datatype date_arg = DateObj int | DateString string

definition getDailyCollectionName :: "zone \<Rightarrow> date_arg \<Rightarrow> string" where
  "getDailyCollectionName z date =
     (case (case date of DateString str \<Rightarrow> Date_parse z str | DateObj t \<Rightarrow> Some t) of
        None \<Rightarrow> ''notifications_NaN_NaN_NaN''
      | Some d \<Rightarrow>
          let year = getUTCFullYear d;
              month = padStart 2 (CHR ''0'') (int_toString (getUTCMonth d + 1));
              day = padStart 2 (CHR ''0'') (int_toString (getUTCDate d))
          in ''notifications_'' @ int_toString year @ ''_'' @ month @ ''_'' @ day)"

subsection \<open>Creating a notification\<close>

record notification_options =
  opt_post :: "(string \<times> string) option"
  opt_comment :: "(string \<times> string) option"
  opt_groupId :: "string option"
  opt_groupName :: "string option"
  opt_campaignName :: "string option"
  opt_rejectionReason :: "string option"
  opt_message :: "string option"

text \<open>
  The \<open>isEnabled\<close> table: \<open>settings.x !== false\<close> per type, \<open>true\<close> for the
  always-on types and for a type the table does not list.
\<close>

definition isEnabled :: "notification_settings option \<Rightarrow> notification_type \<Rightarrow> bool" where
  "isEnabled settings ty =
     (case settings of
        None \<Rightarrow> True
      | Some st \<Rightarrow>
          (case ty of
             Like \<Rightarrow> likes st \<noteq> Some False
           | Comment \<Rightarrow> comments_setting st \<noteq> Some False
           | Mention \<Rightarrow> True
           | Friend_request \<Rightarrow> friendRequests_setting st \<noteq> Some False
           | Friend_request_approved \<Rightarrow> True
           | Campaign_approved \<Rightarrow> campaignUpdates st \<noteq> Some False
           | Campaign_rejected \<Rightarrow> campaignUpdates st \<noteq> Some False
           | Admin_announcement \<Rightarrow> True
           | Admin_warning \<Rightarrow> True
           | Group_post \<Rightarrow> groupPosts st \<noteq> Some False
           | Group_join_request \<Rightarrow> True
           | Group_request_approved \<Rightarrow> True
           | Other_type _ \<Rightarrow> True))"

text \<open>
  \<open>_createNotification(recipientId, type, actor, options)\<close>. \<open>clock 0\<close> is the
  \<open>new Date()\<close> the shard name is computed from, \<open>clock 1\<close> the \<open>new Date()\<close>
  stored as \<open>createdAt\<close>; \<open>nid\<close> is the id \<open>addDoc\<close> generates. Errors of
  the write are caught and logged, so the function returns nothing.
\<close>

definition createNotification ::
  "zone \<Rightarrow> (nat \<Rightarrow> int) \<Rightarrow> string \<Rightarrow> string \<Rightarrow> notification_type \<Rightarrow> user
     \<Rightarrow> notification_options \<Rightarrow> backend \<Rightarrow> backend" where
  "createNotification z clock nid recipient ty actor opts b =
     (if recipient = user_id actor then b
      else
        let (recipientDoc, b1) = getDoc ''users'' users recipient b
        in case recipientDoc of
             None \<Rightarrow> b1
           | Some rcp \<Rightarrow>
               if \<not> isEnabled (notificationSettings rcp) ty then b1
               else
                 let collectionName = getDailyCollectionName z (DateObj (clock 0));
                     notificationData =
                       \<lparr>recipientId = Some recipient, notification_type = ty,
                        notification_user = author_of_user actor, read = False,
                        notification_createdAt = IsoString (toISOString (clock 1)),
                        notification_post = opt_post opts, notification_comment = opt_comment opts,
                        notification_groupId = opt_groupId opts,
                        notification_groupName = opt_groupName opts,
                        campaignName = opt_campaignName opts,
                        rejectionReason = opt_rejectionReason opts,
                        notification_message = opt_message opts\<rparr>
                 in snd (addDoc collectionName (set_shard_doc collectionName nid notificationData) b1))"

subsection \<open>Listening\<close>

text \<open>A \<open>Notification\<close> as the listener hands it to the callback.\<close>

record notification_with_id = notification +
  notification_id :: string

text \<open>
  The shard the \<open>i\<close>-th loop iteration subscribes to: \<open>new Date()\<close>, moved back
  \<open>i\<close> days with \<open>setDate(getDate() - i)\<close> in the host's local time, then named
  by its UTC date.
\<close>

definition shard_for_iteration :: "zone \<Rightarrow> (nat \<Rightarrow> int) \<Rightarrow> nat \<Rightarrow> string" where
  "shard_for_iteration z clock i =
     (let date = clock i;
          date' = setDate z date (getDate z date - int i)
      in getDailyCollectionName z (DateObj date'))"

definition subscribed_shards :: "zone \<Rightarrow> (nat \<Rightarrow> int) \<Rightarrow> string list" where
  "subscribed_shards z clock = map (shard_for_iteration z clock) [0..<30]"

text \<open>
  The listener's state is the \<open>dailyNotifications\<close> map, in insertion order.
  \<open>listenToNotifications\<close> itself registers the thirty snapshot listeners.
\<close>

type_synonym daily_map = "(string \<times> notification_with_id list) list"

fun map_set :: "string \<Rightarrow> 'v \<Rightarrow> (string \<times> 'v) list \<Rightarrow> (string \<times> 'v) list" where
  "map_set k v [] = [(k, v)]"
| "map_set k v ((k', v') # kvs) = (if k' = k then (k, v) # kvs else (k', v') # map_set k v kvs)"

definition map_has :: "string \<Rightarrow> (string \<times> 'v) list \<Rightarrow> bool" where
  "map_has k kvs = list_ex (\<lambda>kv. fst kv = k) kvs"

definition map_delete :: "string \<Rightarrow> (string \<times> 'v) list \<Rightarrow> (string \<times> 'v) list" where
  "map_delete k kvs = filter (\<lambda>kv. fst kv \<noteq> k) kvs"

definition listenToNotifications ::
  "zone \<Rightarrow> (nat \<Rightarrow> int) \<Rightarrow> string \<Rightarrow> backend \<Rightarrow> daily_map \<times> backend" where
  "listenToNotifications z clock userId b =
     ([], foldl (\<lambda>b' c. issue (OnSnapshot c) b') b (subscribed_shards z clock))"

text \<open>
  \<open>new Date(n.createdAt).getTime()\<close>. The snapshot handler only ever stores strings
  that \<open>toISOString\<close> produced, which parse; any other value gives \<open>NaN\<close> in
  the code, and the order \<open>sort\<close> then produces is not modelled (the value 0 stands
  in for it).
\<close>

definition getTime :: "zone \<Rightarrow> notification_with_id \<Rightarrow> int" where
  "getTime z n =
     (case notification_createdAt n of
        IsoString str \<Rightarrow> (case Date_parse z str of Some t \<Rightarrow> t | None \<Rightarrow> 0)
      | Timestamp _ \<Rightarrow> 0)"

definition processAndCallback :: "zone \<Rightarrow> daily_map \<Rightarrow> notification_with_id list" where
  "processAndCallback z dailyNotifications =
     (let combined = concat (map snd dailyNotifications)
      in take 50 (sort_key (\<lambda>n. - getTime z n) combined))"

text \<open>
  What the snapshot handler builds from one document: the stored data with the document
  id, and \<open>createdAt\<close> replaced by the \<open>Timestamp\<close>'s ISO string when the stored
  value is a \<open>Timestamp\<close>, by the current time's ISO string otherwise.
\<close>

definition snapshot_notification :: "int \<Rightarrow> string \<times> notification \<Rightarrow> notification_with_id" where
  "snapshot_notification now doc =
     (let data = snd doc
      in \<lparr>recipientId = recipientId data, notification_type = notification_type data,
          notification_user = notification_user data, read = read data,
          notification_createdAt =
            (case notification_createdAt data of
               Timestamp t \<Rightarrow> IsoString (toISOString t)
             | IsoString _ \<Rightarrow> IsoString (toISOString now)),
          notification_post = notification_post data,
          notification_comment = notification_comment data,
          notification_groupId = notification_groupId data,
          notification_groupName = notification_groupName data,
          campaignName = campaignName data, rejectionReason = rejectionReason data,
          notification_message = notification_message data,
          notification_id = fst doc\<rparr>)"

text \<open>
  The documents of one snapshot, with \<open>n\<close> clock readings already taken: \<open>new
  Date()\<close> is evaluated only for a document whose stored \<open>createdAt\<close> is not a
  \<open>Timestamp\<close>, so each such document takes the next reading.
\<close>

fun snapshot_notifications ::
  "(nat \<Rightarrow> int) \<Rightarrow> nat \<Rightarrow> (string \<times> notification) list \<Rightarrow> notification_with_id list" where
  "snapshot_notifications clock n [] = []"
| "snapshot_notifications clock n (doc # docs) =
     snapshot_notification (clock n) doc
       # snapshot_notifications clock
           (case notification_createdAt (snd doc) of Timestamp _ \<Rightarrow> n | IsoString _ \<Rightarrow> Suc n) docs"

text \<open>
  A snapshot of shard \<open>collectionName\<close> arrives with the documents the query matched;
  \<open>clock\<close> gives the clock readings taken while it is handled. The result is the new
  map and the list passed to the callback.
\<close>

definition on_snapshot ::
  "zone \<Rightarrow> (nat \<Rightarrow> int) \<Rightarrow> string \<Rightarrow> (string \<times> notification) list \<Rightarrow> daily_map
     \<Rightarrow> daily_map \<times> notification_with_id list" where
  "on_snapshot z clock collectionName docs dailyNotifications =
     (let notifications = snapshot_notifications clock 0 docs;
          dn = map_set collectionName notifications dailyNotifications
      in (dn, processAndCallback z dn))"

definition on_snapshot_error ::
  "zone \<Rightarrow> string \<Rightarrow> daily_map \<Rightarrow> daily_map \<times> notification_with_id list option" where
  "on_snapshot_error z collectionName dailyNotifications =
     (if map_has collectionName dailyNotifications
      then (let dn = map_delete collectionName dailyNotifications
            in (dn, Some (processAndCallback z dn)))
      else (dailyNotifications, None))"

text \<open>The documents a shard's query matches for a user, given the shard's document ids.\<close>

definition query_shard :: "db \<Rightarrow> string \<Rightarrow> string \<Rightarrow> string list \<Rightarrow> (string \<times> notification) list" where
  "query_shard d collectionName userId ids =
     concat (map (\<lambda>k. case sub_collection (shards d) collectionName k of
                         None \<Rightarrow> []
                       | Some n \<Rightarrow> (if recipientId n = Some userId then [(k, n)] else [])) ids)"

subsection \<open>Marking as read\<close>

fun group_push :: "string \<Rightarrow> string \<Rightarrow> (string \<times> string list) list \<Rightarrow> (string \<times> string list) list" where
  "group_push c i [] = [(c, [i])]"
| "group_push c i ((c', ids) # rest) =
     (if c' = c then (c', ids @ [i]) # rest else (c', ids) # group_push c i rest)"

text \<open>
  \<open>getDailyCollectionName(n.createdAt)\<close> is called with the field as it is: a string
  is parsed, while a \<open>Timestamp\<close> object has no \<open>getUTCFullYear\<close> and the call
  throws a \<open>TypeError\<close>.
\<close>

definition has_string_createdAt :: "notification_with_id \<Rightarrow> bool" where
  "has_string_createdAt n =
     (case notification_createdAt n of IsoString _ \<Rightarrow> True | Timestamp _ \<Rightarrow> False)"

definition createdAt_string :: "notification_with_id \<Rightarrow> string" where
  "createdAt_string n =
     (case notification_createdAt n of IsoString str \<Rightarrow> str | Timestamp _ \<Rightarrow> [])"

definition groupedByCollection ::
  "zone \<Rightarrow> notification_with_id list \<Rightarrow> (string \<times> string list) list" where
  "groupedByCollection z ns =
     foldl (\<lambda>g n. group_push (getDailyCollectionName z (DateString (createdAt_string n)))
                    (notification_id n) g) [] ns"

definition mark_read_writes :: "(string \<times> string list) list \<Rightarrow> doc_write list" where
  "mark_read_writes grouped =
     concat (map (\<lambda>(collectionName, ids).
                    map (\<lambda>i. update_shard_doc collectionName i (\<lambda>n. n\<lparr>read := True\<rparr>)) ids) grouped)"

definition markNotificationsAsRead ::
  "zone \<Rightarrow> string \<Rightarrow> notification_with_id list \<Rightarrow> backend \<Rightarrow> (error + unit) \<times> backend" where
  "markNotificationsAsRead z userId notificationsToMark b =
     (if notificationsToMark = [] then (Inr (), b)
      else if \<not> list_all has_string_createdAt notificationsToMark
      then (Inl (Thrown ''TypeError: d.getUTCFullYear is not a function''), b)
      else batch_commit (mark_read_writes (groupedByCollection z notificationsToMark)) b)"

section \<open>Example states\<close>

text \<open>A host on UTC, and a host whose local time is one hour ahead of UTC until
  2024-10-27T01:00:00Z and equal to UTC afterwards.\<close>

definition utc_zone :: zone where
  "utc_zone = \<lparr>offset_at_utc = (\<lambda>_. 0), offset_at_local = (\<lambda>_. 0)\<rparr>"

definition london_zone :: zone where
  "london_zone =
     \<lparr>offset_at_utc = (\<lambda>t. if t < 1729990800000 then 3600000 else 0),
      offset_at_local = (\<lambda>t. if t < 1729994400000 then 3600000 else 0)\<rparr>"

definition empty_db :: db where
  "empty_db =
     \<lparr>users = Map.empty, usernames = Map.empty, friendRequests = Map.empty,
      userNotifications = Map.empty, posts = Map.empty, groups = Map.empty,
      shards = Map.empty\<rparr>"

definition alice :: user_data where
  "alice =
     \<lparr>user_name = ''Alice'', user_username = ''alice'', user_avatarUrl = ''a.png'',
      friendIds = [], notificationSettings = None\<rparr>"

definition bob :: user_data where
  "bob =
     \<lparr>user_name = ''Bob'', user_username = ''bob'', user_avatarUrl = ''b.png'',
      friendIds = [],
      notificationSettings =
        Some \<lparr>likes = Some False, comments_setting = Some False,
              friendRequests_setting = Some False, campaignUpdates = Some False,
              groupPosts = Some False\<rparr>\<rparr>"

definition alice_author :: author where
  "alice_author = author_of_user (docToUser ''u1'' alice)"

definition bob_author :: author where
  "bob_author = author_of_user (docToUser ''u2'' bob)"

text \<open>A post by Alice on which Alice's own reaction is \<open>like\<close>, with a two-option poll.\<close>

definition example_poll :: poll where
  "example_poll =
     \<lparr>question = ''Tea or coffee?'',
      options = [\<lparr>option_text = ''Tea'', votes = 1, votedBy = [''u1'']\<rparr>,
                 \<lparr>option_text = ''Coffee'', votes = 0, votedBy = []\<rparr>]\<rparr>"

definition example_post :: post where
  "example_post =
     \<lparr>post_author = alice_author, caption = Some ''hello'',
      reactions = Some [''u1'' \<mapsto> ''like''], comments = None, commentCount = None,
      createdAt = Some (Timestamp 1704153599999), poll = Some example_poll\<rparr>"

text \<open>A group whose only member is Alice, with \<open>memberCount = 1\<close>.\<close>

definition example_group :: group where
  "example_group =
     \<lparr>creator = alice_author, group_name = ''Readers'', description = ''Books'',
      coverPhotoUrl = ''c.png'', privacy = ''public'', requiresApproval = False,
      category = ''General'', members = [alice_author], memberCount = 1,
      admins = [alice_author], moderators = [], joinRequests = None, pinnedPostId = None,
      group_createdAt = Timestamp 1704153599999\<rparr>"

text \<open>Bob has sent Alice a friend request that is still pending.\<close>

definition example_request :: friend_request where
  "example_request =
     \<lparr>request_from = bob_author, request_to = alice_author, status = Some ''pending'',
      request_createdAt = Timestamp 1704153599999\<rparr>"

definition example_db :: db where
  "example_db =
     empty_db\<lparr>users := [''u1'' \<mapsto> alice, ''u2'' \<mapsto> bob],
              usernames := [''alice'' \<mapsto> ''u1'', ''bob'' \<mapsto> ''u2''],
              friendRequests := [''u2_u1'' \<mapsto> example_request],
              posts := [''p1'' \<mapsto> example_post],
              groups := [''g1'' \<mapsto> example_group]\<rparr>"

definition example_backend :: backend where
  "example_backend = \<lparr>store = example_db, calls = []\<rparr>"

text \<open>The reaction a user has on a post, as stored.\<close>

definition reaction_of :: "backend \<Rightarrow> string \<Rightarrow> string \<Rightarrow> string option" where
  "reaction_of b postId userId =
     (case posts (store b) postId of None \<Rightarrow> None | Some p \<Rightarrow> or_empty (reactions p) userId)"

text \<open>The members and the counter of a stored group.\<close>

definition group_members_and_count :: "backend \<Rightarrow> string \<Rightarrow> (author list \<times> int) option" where
  "group_members_and_count b groupId =
     map_option (\<lambda>g. (members g, memberCount g)) (groups (store b) groupId)"

text \<open>The calls that are a real-time subscription or a transaction.\<close>

definition listener_or_transaction :: "call \<Rightarrow> bool" where
  "listener_or_transaction c =
     (case c of OnSnapshot _ \<Rightarrow> True | RunTransaction \<Rightarrow> True | _ \<Rightarrow> False)"

text \<open>An uploaded image and a JSON body of the media host's answer.\<close>

definition example_file :: media_file where
  "example_file = \<lparr>file_type = ''image/png'', file_bytes = ''...''\<rparr>"

definition example_upload_body :: cloudinary_body where
  "example_upload_body =
     \<lparr>secure_url = Some ''https://res.cloudinary.com/deeieh2bd/image/upload/v1/x.png'',
      resource_type = Some ''image''\<rparr>"

definition no_options :: notification_options where
  "no_options =
     \<lparr>opt_post = None, opt_comment = None, opt_groupId = None, opt_groupName = None,
      opt_campaignName = None, opt_rejectionReason = None, opt_message = None\<rparr>"

text \<open>
  What \<open>{ id: doc.id, ...doc.data() }\<close> gives for a stored notification, and the
  stored notification under an id of a shard, if any.
\<close>

definition with_id :: "string \<Rightarrow> notification \<Rightarrow> notification_with_id" where
  "with_id k data =
     \<lparr>recipientId = recipientId data, notification_type = notification_type data,
      notification_user = notification_user data, read = read data,
      notification_createdAt = notification_createdAt data,
      notification_post = notification_post data,
      notification_comment = notification_comment data,
      notification_groupId = notification_groupId data,
      notification_groupName = notification_groupName data,
      campaignName = campaignName data, rejectionReason = rejectionReason data,
      notification_message = notification_message data,
      notification_id = k\<rparr>"

definition stored_notification :: "backend \<Rightarrow> string \<Rightarrow> string \<Rightarrow> notification_with_id list" where
  "stored_notification b collectionName k =
     (case sub_collection (shards (store b)) collectionName k of
        None \<Rightarrow> [] | Some n \<Rightarrow> [with_id k n])"

text \<open>
  A clock that reads 2024-01-01T23:59:59.999Z first and 2024-01-02T00:00:00.000Z from
  then on, and the backend after Bob's like notified Alice under that clock, on a host on
  UTC.
\<close>

definition midnight_clock :: "nat \<Rightarrow> int" where
  "midnight_clock n = (if n = 0 then 1704153599999 else 1704153600000)"

definition backend_after_midnight_like :: backend where
  "backend_after_midnight_like =
     createNotification utc_zone midnight_clock ''n1'' ''u1'' Like (docToUser ''u2'' bob) no_options
       example_backend"

text \<open>
  Bob comments on 2024-03-09 at noon UTC and likes on 2024-03-10 at noon UTC; Alice is
  notified of both. On 2024-03-10 the snapshot of that day's shard is handled at
  18:00:00.100 UTC and the snapshot of the previous day's shard at 18:00:00.200 UTC. The
  host is on UTC.
\<close>

definition backend_two_days :: backend where
  "backend_two_days =
     createNotification utc_zone (\<lambda>_. 1710072000000) ''a'' ''u1'' Like (docToUser ''u2'' bob)
       no_options
       (createNotification utc_zone (\<lambda>_. 1709985600000) ''b'' ''u1'' Comment (docToUser ''u2'' bob)
          no_options example_backend)"

definition after_first_snapshot :: "daily_map \<times> notification_with_id list" where
  "after_first_snapshot =
     on_snapshot utc_zone (\<lambda>_. 1710093600100) ''notifications_2024_03_10''
       (query_shard (store backend_two_days) ''notifications_2024_03_10'' ''u1'' [''a'']) []"

definition after_second_snapshot :: "daily_map \<times> notification_with_id list" where
  "after_second_snapshot =
     on_snapshot utc_zone (\<lambda>_. 1710093600200) ''notifications_2024_03_09''
       (query_shard (store backend_two_days) ''notifications_2024_03_09'' ''u1'' [''b''])
       (fst after_first_snapshot)"

definition all_switches_off :: notification_settings where
  "all_switches_off =
     \<lparr>likes = Some False, comments_setting = Some False,
      friendRequests_setting = Some False, campaignUpdates = Some False,
      groupPosts = Some False\<rparr>"

text \<open>
  A post stored without a \<open>createdAt\<close>, with the example poll and two comments: the
  first comment's \<open>createdAt\<close> is a \<open>Timestamp\<close> (2024-03-09 at noon UTC), the
  second's is a string. The clock reads 2024-03-10T18:00:00.100Z first,
  2024-03-10T18:00:00.200Z next and 2024-03-10T12:00:00.000Z from then on.
\<close>

definition first_comment :: comment where
  "first_comment =
     \<lparr>comment_id = ''c1'', comment_author = bob_author, comment_text = Some ''first'',
      comment_type = ''text'', comment_reactions = None,
      comment_createdAt = Some (Timestamp 1709985600000)\<rparr>"

definition second_comment :: comment where
  "second_comment =
     \<lparr>comment_id = ''c2'', comment_author = alice_author, comment_text = Some ''second'',
      comment_type = ''text'', comment_reactions = None,
      comment_createdAt = Some (IsoString ''yesterday'')\<rparr>"

definition commented_post :: post where
  "commented_post =
     \<lparr>post_author = alice_author, caption = Some ''poll'',
      reactions = None, comments = Some [first_comment, second_comment], commentCount = Some 2,
      createdAt = None, poll = Some example_poll\<rparr>"

definition commented_backend :: backend where
  "commented_backend =
     \<lparr>store = example_db\<lparr>posts := [''p2'' \<mapsto> commented_post]\<rparr>, calls = []\<rparr>"

definition three_readings :: "nat \<Rightarrow> int" where
  "three_readings n =
     (if n = 0 then 1710093600100 else if n = 1 then 1710093600200 else 1710072000000)"

definition count_matches_members :: "group \<Rightarrow> bool" where
  "count_matches_members g = (memberCount g = int (length (members g)))"

section \<open>Verified properties\<close>

subsection \<open>Reaction toggling\<close>

lemma toggle_reaction_at:
  "toggle_reaction m u r u = (if m u = Some r then None else Some r)"
  by (simp add: toggle_reaction_def)

lemma toggle_reaction_other:
  "v \<noteq> u \<Longrightarrow> toggle_reaction m u r v = m v"
  by (simp add: toggle_reaction_def)

lemma toggle_reaction_twice:
  "toggle_reaction (toggle_reaction m u r) u r =
     (if m u = None \<or> m u = Some r then m else m(u := None))"
  by (auto simp: toggle_reaction_def fun_eq_iff)

lemma reactToPost_existing:
  assumes "posts (store b) postId = Some p"
  shows "reactToPost postId userId r b =
           (True, issue RunTransaction
              (b\<lparr>store := (store b)\<lparr>posts := (posts (store b))
                 (postId \<mapsto> p\<lparr>reactions := Some (toggle_reaction (or_empty (reactions p)) userId r)\<rparr>)\<rparr>\<rparr>))"
  using assms
  by (simp add: reactToPost_def runTransaction_def reactToPost_body_def update_post_def)

text \<open>
  C2, as stated, at a concrete input: Alice's reaction on the example post is
  \<open>like\<close>; after she reacts with \<open>love\<close> twice she has no reaction on it, so two
  applications did not restore the reactions map.
\<close>

theorem reactToPost_twice_counterexample:
  "reaction_of example_backend ''p1'' ''u1'' = Some ''like'' \<and>
   reaction_of (snd (reactToPost ''p1'' ''u1'' ''love''
                  (snd (reactToPost ''p1'' ''u1'' ''love'' example_backend)))) ''p1'' ''u1'' = None"
proof -
  have p0: "posts (store example_backend) ''p1'' = Some example_post"
    by (simp add: example_backend_def example_db_def)
  let ?b1 = "snd (reactToPost ''p1'' ''u1'' ''love'' example_backend)"
  have p1: "posts (store ?b1) ''p1'' =
              Some (example_post\<lparr>reactions := Some (toggle_reaction (or_empty (reactions example_post)) ''u1'' ''love'')\<rparr>)"
    by (simp add: reactToPost_existing [OF p0] issue_def)
  have "reaction_of example_backend ''p1'' ''u1'' = Some ''like''"
    by (simp add: reaction_of_def p0 example_post_def or_empty_def)
  moreover have "reaction_of (snd (reactToPost ''p1'' ''u1'' ''love'' ?b1)) ''p1'' ''u1'' = None"
    by (simp add: reaction_of_def reactToPost_existing [OF p1] issue_def or_empty_def
          toggle_reaction_def example_post_def)
  ultimately show ?thesis by simp
qed

text \<open>
  C2, amended. On an existing post \<open>reactToPost\<close> succeeds and replaces the post's
  reactions by the toggled map, leaving every other field of the post and every other
  document as they were: the user's entry is removed when it equalled \<open>r\<close> and set to
  \<open>r\<close> otherwise, and the other users' entries are kept. Two applications with the
  same user and reaction restore the original map when the user's entry was absent or
  equal to \<open>r\<close>; when it was a different reaction they leave the user without an entry.
\<close>

theorem reactToPost_toggle:
  assumes "posts (store b) postId = Some p"
  shows "fst (reactToPost postId userId r b) = True \<and>
         store (snd (reactToPost postId userId r b)) =
           (store b)\<lparr>posts := (posts (store b))
              (postId \<mapsto> p\<lparr>reactions := Some (toggle_reaction (or_empty (reactions p)) userId r)\<rparr>)\<rparr> \<and>
         toggle_reaction (or_empty (reactions p)) userId r userId =
           (if or_empty (reactions p) userId = Some r then None else Some r) \<and>
         (\<forall>v. v \<noteq> userId \<longrightarrow>
              toggle_reaction (or_empty (reactions p)) userId r v = or_empty (reactions p) v) \<and>
         store (snd (reactToPost postId userId r (snd (reactToPost postId userId r b)))) =
           (store b)\<lparr>posts := (posts (store b))
              (postId \<mapsto> p\<lparr>reactions := Some
                 (if or_empty (reactions p) userId = None \<or> or_empty (reactions p) userId = Some r
                  then or_empty (reactions p)
                  else (or_empty (reactions p))(userId := None))\<rparr>)\<rparr>"
proof -
  let ?b1 = "snd (reactToPost postId userId r b)"
  let ?m = "or_empty (reactions p)"
  have ok: "fst (reactToPost postId userId r b) = True"
    by (simp add: reactToPost_existing [OF assms])
  have s1: "store ?b1 = (store b)\<lparr>posts := (posts (store b))
              (postId \<mapsto> p\<lparr>reactions := Some (toggle_reaction ?m userId r)\<rparr>)\<rparr>"
    by (simp add: reactToPost_existing [OF assms] issue_def)
  have own: "toggle_reaction ?m userId r userId = (if ?m userId = Some r then None else Some r)"
    by (rule toggle_reaction_at)
  have others: "\<forall>v. v \<noteq> userId \<longrightarrow> toggle_reaction ?m userId r v = ?m v"
    by (simp add: toggle_reaction_other)
  have p1: "posts (store ?b1) postId = Some (p\<lparr>reactions := Some (toggle_reaction ?m userId r)\<rparr>)"
    by (simp add: s1)
  have s2: "store (snd (reactToPost postId userId r ?b1)) =
           (store b)\<lparr>posts := (posts (store b))
              (postId \<mapsto> p\<lparr>reactions := Some
                 (if ?m userId = None \<or> ?m userId = Some r then ?m else ?m(userId := None))\<rparr>)\<rparr>"
    by (simp add: reactToPost_existing [OF p1] issue_def s1 toggle_reaction_twice or_empty_def)
  from ok s1 own others s2 show ?thesis by blast
qed

theorem reactToPost_toggle_witness:
  "posts (store example_backend) ''p1'' = Some example_post \<and>
   fst (reactToPost ''p1'' ''u2'' ''love'' example_backend) = True \<and>
   reaction_of (snd (reactToPost ''p1'' ''u2'' ''love'' example_backend)) ''p1'' ''u2'' = Some ''love'' \<and>
   reaction_of (snd (reactToPost ''p1'' ''u2'' ''love'' example_backend)) ''p1'' ''u1'' = Some ''like''"
proof -
  have p0: "posts (store example_backend) ''p1'' = Some example_post"
    by (simp add: example_backend_def example_db_def)
  from reactToPost_toggle [OF p0, of "''u2''" "''love''"] show ?thesis
    using p0 by (simp add: reaction_of_def or_empty_def toggle_reaction_def example_post_def)
qed

subsection \<open>Transactions, batches and the call log\<close>


lemma runTransaction_calls:
  "calls (snd (runTransaction body b)) = calls b @ [RunTransaction]"
  by (auto simp: runTransaction_def issue_def split: sum.splits option.splits prod.splits)

lemma store_issue [simp]: "store (issue c b) = store b"
  by (simp add: issue_def)

lemma calls_issue [simp]: "calls (issue c b) = calls b @ [c]"
  by (simp add: issue_def)

subsection \<open>Dates of the examples\<close>

lemma iso_march_9: "toISOString 1709985600000 = ''2024-03-09T12:00:00.000Z''"
  by code_simp

lemma iso_march_10: "toISOString 1710072000000 = ''2024-03-10T12:00:00.000Z''"
  by code_simp

lemma iso_first_snapshot: "toISOString 1710093600100 = ''2024-03-10T18:00:00.100Z''"
  by code_simp

lemma iso_second_snapshot: "toISOString 1710093600200 = ''2024-03-10T18:00:00.200Z''"
  by code_simp

lemma iso_before_midnight: "toISOString 1704153599999 = ''2024-01-01T23:59:59.999Z''"
  by code_simp

subsection \<open>Polls\<close>

lemma map_enumerate_update:
  assumes "0 \<le> i" "i < int (length xs)"
  shows "map (\<lambda>(index, x). if int index = i then f x else x) (enumerate 0 xs) =
           list_update xs (nat i) (f (xs ! nat i))"
proof (rule nth_equalityI)
  show "length (map (\<lambda>(index, x). if int index = i then f x else x) (enumerate 0 xs)) =
          length (list_update xs (nat i) (f (xs ! nat i)))"
    by simp
next
  fix k
  assume "k < length (map (\<lambda>(index, x). if int index = i then f x else x) (enumerate 0 xs))"
  then have k: "k < length xs" by simp
  show "map (\<lambda>(index, x). if int index = i then f x else x) (enumerate 0 xs) ! k =
          list_update xs (nat i) (f (xs ! nat i)) ! k"
    using k assms by (auto simp: nth_enumerate_eq nth_list_update)
qed

lemma createdAt_iso_eq:
  "createdAt_iso c now =
     Some (IsoString (toISOString (case c of Some (Timestamp t) \<Rightarrow> t | _ \<Rightarrow> now)))"
  by (simp add: createdAt_iso_def split: option.splits stored_time.splits)

lemma length_comments_iso: "length (comments_iso clock n cs) = length cs"
  by (induction cs arbitrary: n) simp_all

text \<open>
  The comment at position \<open>j\<close> keeps every field but \<open>createdAt\<close>, and takes the
  clock reading numbered by the fields before it that needed one.
\<close>

lemma comments_iso_nth:
  "j < length cs \<Longrightarrow>
     comments_iso clock n cs ! j =
       (cs ! j)\<lparr>comment_createdAt :=
          createdAt_iso (comment_createdAt (cs ! j))
            (clock (n + length (filter (\<lambda>c. \<not> is_Timestamp (comment_createdAt c)) (take j cs))))\<rparr>"
proof (induction cs arbitrary: n j)
  case Nil
  then show ?case by simp
next
  case (Cons c cs)
  show ?case
  proof (cases j)
    case 0
    then show ?thesis by simp
  next
    case (Suc k)
    with Cons.prems have k: "k < length cs" by simp
    show ?thesis
      using Cons.IH [OF k] Suc by simp
  qed
qed

lemma voteOnPoll_missing:
  "posts (store b) postId = None \<Longrightarrow>
     voteOnPoll clock userId postId i b = (None, issue RunTransaction b)"
  by (simp add: voteOnPoll_def runTransaction_def voteOnPoll_body_def)

lemma voteOnPoll_no_poll:
  "posts (store b) postId = Some p \<Longrightarrow> poll p = None \<Longrightarrow>
     voteOnPoll clock userId postId i b = (None, issue RunTransaction b)"
  by (simp add: voteOnPoll_def runTransaction_def voteOnPoll_body_def)

lemma voteOnPoll_voted:
  "posts (store b) postId = Some p \<Longrightarrow> poll p = Some pl \<Longrightarrow>
   list_ex (\<lambda>opt. userId \<in> set (votedBy opt)) (options pl) \<Longrightarrow>
     voteOnPoll clock userId postId i b = (Some (docToPost clock postId p), issue RunTransaction b)"
  by (simp add: voteOnPoll_def runTransaction_def voteOnPoll_body_def issue_def)

lemma voteOnPoll_out_of_range:
  "posts (store b) postId = Some p \<Longrightarrow> poll p = Some pl \<Longrightarrow>
   \<not> list_ex (\<lambda>opt. userId \<in> set (votedBy opt)) (options pl) \<Longrightarrow>
   i < 0 \<or> int (length (options pl)) \<le> i \<Longrightarrow>
     voteOnPoll clock userId postId i b = (None, issue RunTransaction b)"
  by (auto simp add: voteOnPoll_def runTransaction_def voteOnPoll_body_def)

lemma voteOnPoll_votes:
  assumes "posts (store b) postId = Some p" "poll p = Some pl"
    "\<not> list_ex (\<lambda>opt. userId \<in> set (votedBy opt)) (options pl)"
    "0 \<le> i" "i < int (length (options pl))"
  shows "voteOnPoll clock userId postId i b =
     (Some ((docToPost clock postId p)
              \<lparr>poll := Some (pl\<lparr>options := list_update (options pl) (nat i) (vote_option userId (options pl ! nat i))\<rparr>)\<rparr>),
      issue RunTransaction
        (b\<lparr>store := (store b)\<lparr>posts := (posts (store b))
           (postId \<mapsto> p\<lparr>poll := Some (pl\<lparr>options := list_update (options pl) (nat i) (vote_option userId (options pl ! nat i))\<rparr>)\<rparr>)\<rparr>\<rparr>))"
  using assms
  by (simp add: voteOnPoll_def runTransaction_def voteOnPoll_body_def update_post_def
        map_enumerate_update Let_def)

text \<open>
  C10, as stated, at a concrete input. Alice has voted on the example post, whose poll
  has two options. \<open>voteOnPoll\<close> for her with option index 5, which is out of range,
  does not return \<open>null\<close>: it returns the post, and the store is as it was.
\<close>

theorem voteOnPoll_voted_out_of_range_counterexample:
  "length (options example_poll) = 2 \<and>
   list_ex (\<lambda>opt. ''u1'' \<in> set (votedBy opt)) (options example_poll) \<and>
   map_option (\<lambda>r. (post_id r, createdAt r, poll r))
     (fst (voteOnPoll (\<lambda>_. 0) ''u1'' ''p1'' 5 example_backend)) =
     Some (''p1'', Some (IsoString ''2024-01-01T23:59:59.999Z''), Some example_poll) \<and>
   store (snd (voteOnPoll (\<lambda>_. 0) ''u1'' ''p1'' 5 example_backend)) = store example_backend"
proof -
  have p0: "posts (store example_backend) ''p1'' = Some example_post"
    by (simp add: example_backend_def example_db_def)
  have pl: "poll example_post = Some example_poll"
    by (simp add: example_post_def)
  have v: "list_ex (\<lambda>opt. ''u1'' \<in> set (votedBy opt)) (options example_poll)"
    by (simp add: example_poll_def)
  have len: "length (options example_poll) = 2"
    by (simp add: example_poll_def)
  have r: "voteOnPoll (\<lambda>_. 0) ''u1'' ''p1'' 5 example_backend =
             (Some (docToPost (\<lambda>_. 0) ''p1'' example_post), issue RunTransaction example_backend)"
    by (rule voteOnPoll_voted [OF p0 pl v])
  have d: "createdAt (docToPost (\<lambda>_. 0) ''p1'' example_post) =
             Some (IsoString ''2024-01-01T23:59:59.999Z'')"
    by (simp add: docToPost_def createdAt_iso_def example_post_def iso_before_midnight)
  from len v show ?thesis
    by (simp add: r d) (simp add: docToPost_def example_post_def)
qed

text \<open>
  C10, amended. \<open>voteOnPoll\<close> returns \<open>null\<close> and leaves the store as it was for
  a missing post and for a post without a poll. On a post with a poll the check for an
  earlier vote comes first: when the user already appears in some option's
  \<open>votedBy\<close> the store is left as it was and the current post is returned, whatever
  the option index. Otherwise an index outside the options gives \<open>null\<close> with the
  store as it was, and an index inside them replaces exactly that option by one with one
  more vote and the user appended to its \<open>votedBy\<close>, every other option, every other
  field of the post and every other document staying as they were, and returns the current
  post with the new poll. The current post is the stored post with its id: author,
  caption and poll as stored, reactions and comment count as stored or empty and 0 when
  absent, and every \<open>createdAt\<close>, the post's and each comment's, as an ISO string, of
  the stored \<open>Timestamp\<close> or else of the next clock reading; the comments are otherwise
  as stored.
\<close>

theorem voteOnPoll_single_vote:
  "(posts (store b) postId = None \<longrightarrow>
      fst (voteOnPoll clock userId postId i b) = None \<and>
      store (snd (voteOnPoll clock userId postId i b)) = store b) \<and>
   (posts (store b) postId = Some p \<and> poll p = None \<longrightarrow>
      fst (voteOnPoll clock userId postId i b) = None \<and>
      store (snd (voteOnPoll clock userId postId i b)) = store b) \<and>
   (posts (store b) postId = Some p \<and> poll p = Some pl \<and>
    (\<exists>opt \<in> set (options pl). userId \<in> set (votedBy opt)) \<longrightarrow>
      fst (voteOnPoll clock userId postId i b) = Some (docToPost clock postId p) \<and>
      store (snd (voteOnPoll clock userId postId i b)) = store b) \<and>
   (posts (store b) postId = Some p \<and> poll p = Some pl \<and>
    (\<forall>opt \<in> set (options pl). userId \<notin> set (votedBy opt)) \<and>
    (i < 0 \<or> int (length (options pl)) \<le> i) \<longrightarrow>
      fst (voteOnPoll clock userId postId i b) = None \<and>
      store (snd (voteOnPoll clock userId postId i b)) = store b) \<and>
   (posts (store b) postId = Some p \<and> poll p = Some pl \<and>
    (\<forall>opt \<in> set (options pl). userId \<notin> set (votedBy opt)) \<and>
    0 \<le> i \<and> i < int (length (options pl)) \<longrightarrow>
      (let chosen = options pl ! nat i;
           updatedPoll = pl\<lparr>options := list_update (options pl) (nat i)
                             (chosen\<lparr>votes := votes chosen + 1, votedBy := votedBy chosen @ [userId]\<rparr>)\<rparr>
       in fst (voteOnPoll clock userId postId i b) =
            Some ((docToPost clock postId p)\<lparr>poll := Some updatedPoll\<rparr>) \<and>
          store (snd (voteOnPoll clock userId postId i b)) =
            (store b)\<lparr>posts := (posts (store b))(postId \<mapsto> p\<lparr>poll := Some updatedPoll\<rparr>)\<rparr>)) \<and>
   (let r = docToPost clock postId p;
        cs = (case comments p of None \<Rightarrow> [] | Some l \<Rightarrow> l);
        first_reading = (case createdAt p of Some (Timestamp _) \<Rightarrow> 0 | _ \<Rightarrow> 1)
    in post_id r = postId \<and> post_author r = post_author p \<and> caption r = caption p \<and>
       poll r = poll p \<and>
       reactions r = Some (case reactions p of None \<Rightarrow> Map.empty | Some m \<Rightarrow> m) \<and>
       commentCount r = Some (case commentCount p of None \<Rightarrow> 0 | Some n \<Rightarrow> n) \<and>
       createdAt r =
         Some (IsoString (toISOString (case createdAt p of Some (Timestamp t) \<Rightarrow> t | _ \<Rightarrow> clock 0))) \<and>
       (\<exists>cs'. comments r = Some cs' \<and> length cs' = length cs \<and>
          (\<forall>j < length cs.
             cs' ! j =
               (cs ! j)\<lparr>comment_createdAt :=
                  Some (IsoString (toISOString
                    (case comment_createdAt (cs ! j) of
                       Some (Timestamp t) \<Rightarrow> t
                     | _ \<Rightarrow> clock (first_reading +
                                  length (filter (\<lambda>c. case comment_createdAt c of
                                                         Some (Timestamp _) \<Rightarrow> False | _ \<Rightarrow> True)
                                            (take j cs))))))\<rparr>)))"
proof (intro conjI impI)
  assume "posts (store b) postId = None"
  then show "fst (voteOnPoll clock userId postId i b) = None"
    and "store (snd (voteOnPoll clock userId postId i b)) = store b"
    by (simp_all add: voteOnPoll_missing)
next
  assume "posts (store b) postId = Some p \<and> poll p = None"
  then show "fst (voteOnPoll clock userId postId i b) = None"
    and "store (snd (voteOnPoll clock userId postId i b)) = store b"
    by (simp_all add: voteOnPoll_no_poll)
next
  assume h: "posts (store b) postId = Some p \<and> poll p = Some pl \<and>
    (\<exists>opt \<in> set (options pl). userId \<in> set (votedBy opt))"
  then have "list_ex (\<lambda>opt. userId \<in> set (votedBy opt)) (options pl)"
    by (simp add: list_ex_iff)
  with h show "fst (voteOnPoll clock userId postId i b) = Some (docToPost clock postId p)"
    and "store (snd (voteOnPoll clock userId postId i b)) = store b"
    by (simp_all add: voteOnPoll_voted)
next
  assume h: "posts (store b) postId = Some p \<and> poll p = Some pl \<and>
    (\<forall>opt \<in> set (options pl). userId \<notin> set (votedBy opt)) \<and>
    (i < 0 \<or> int (length (options pl)) \<le> i)"
  then have "\<not> list_ex (\<lambda>opt. userId \<in> set (votedBy opt)) (options pl)"
    by (simp add: list_ex_iff)
  with h have "voteOnPoll clock userId postId i b = (None, issue RunTransaction b)"
    by (intro voteOnPoll_out_of_range [of b postId p pl]) simp_all
  then show "fst (voteOnPoll clock userId postId i b) = None"
    and "store (snd (voteOnPoll clock userId postId i b)) = store b"
    by simp_all
next
  assume h: "posts (store b) postId = Some p \<and> poll p = Some pl \<and>
    (\<forall>opt \<in> set (options pl). userId \<notin> set (votedBy opt)) \<and>
    0 \<le> i \<and> i < int (length (options pl))"
  then have "\<not> list_ex (\<lambda>opt. userId \<in> set (votedBy opt)) (options pl)"
    by (simp add: list_ex_iff)
  with h show "let chosen = options pl ! nat i;
           updatedPoll = pl\<lparr>options := list_update (options pl) (nat i)
                             (chosen\<lparr>votes := votes chosen + 1, votedBy := votedBy chosen @ [userId]\<rparr>)\<rparr>
       in fst (voteOnPoll clock userId postId i b) =
            Some ((docToPost clock postId p)\<lparr>poll := Some updatedPoll\<rparr>) \<and>
          store (snd (voteOnPoll clock userId postId i b)) =
            (store b)\<lparr>posts := (posts (store b))(postId \<mapsto> p\<lparr>poll := Some updatedPoll\<rparr>)\<rparr>"
    by (simp add: voteOnPoll_votes [of b postId p pl userId i clock] vote_option_def Let_def)
next
  have ts: "(\<lambda>c. \<not> is_Timestamp (comment_createdAt c)) =
              (\<lambda>c. case comment_createdAt c of Some (Timestamp _) \<Rightarrow> False | _ \<Rightarrow> True)"
    by (auto simp: is_Timestamp_def fun_eq_iff split: option.splits stored_time.splits)
  have fr: "(if is_Timestamp (createdAt p) then 0 else 1) =
              (case createdAt p of Some (Timestamp _) \<Rightarrow> 0 | _ \<Rightarrow> (1::nat))"
    by (simp add: is_Timestamp_def split: option.splits stored_time.splits)
  show "let r = docToPost clock postId p;
        cs = (case comments p of None \<Rightarrow> [] | Some l \<Rightarrow> l);
        first_reading = (case createdAt p of Some (Timestamp _) \<Rightarrow> 0 | _ \<Rightarrow> 1)
    in post_id r = postId \<and> post_author r = post_author p \<and> caption r = caption p \<and>
       poll r = poll p \<and>
       reactions r = Some (case reactions p of None \<Rightarrow> Map.empty | Some m \<Rightarrow> m) \<and>
       commentCount r = Some (case commentCount p of None \<Rightarrow> 0 | Some n \<Rightarrow> n) \<and>
       createdAt r =
         Some (IsoString (toISOString (case createdAt p of Some (Timestamp t) \<Rightarrow> t | _ \<Rightarrow> clock 0))) \<and>
       (\<exists>cs'. comments r = Some cs' \<and> length cs' = length cs \<and>
          (\<forall>j < length cs.
             cs' ! j =
               (cs ! j)\<lparr>comment_createdAt :=
                  Some (IsoString (toISOString
                    (case comment_createdAt (cs ! j) of
                       Some (Timestamp t) \<Rightarrow> t
                     | _ \<Rightarrow> clock (first_reading +
                                  length (filter (\<lambda>c. case comment_createdAt c of
                                                         Some (Timestamp _) \<Rightarrow> False | _ \<Rightarrow> True)
                                            (take j cs))))))\<rparr>))"
    unfolding Let_def
    by (simp add: docToPost_def createdAt_iso_eq length_comments_iso comments_iso_nth ts fr
          del: One_nat_def)
qed

theorem voteOnPoll_single_vote_witness:
  "posts (store commented_backend) ''p2'' = Some commented_post \<and>
   poll commented_post = Some example_poll \<and>
   list_ex (\<lambda>opt. ''u1'' \<in> set (votedBy opt)) (options example_poll) \<and>
   list_all (\<lambda>opt. ''u2'' \<notin> set (votedBy opt)) (options example_poll) \<and>
   posts (store commented_backend) ''p9'' = None \<and>
   fst (voteOnPoll three_readings ''u2'' ''p9'' 0 commented_backend) = None \<and>
   fst (voteOnPoll three_readings ''u1'' ''p2'' 1 commented_backend) =
     Some \<lparr>post_author = alice_author, caption = Some ''poll'', reactions = Some Map.empty,
           comments = Some [first_comment\<lparr>comment_createdAt :=
                                            Some (IsoString ''2024-03-09T12:00:00.000Z'')\<rparr>,
                            second_comment\<lparr>comment_createdAt :=
                                             Some (IsoString ''2024-03-10T18:00:00.200Z'')\<rparr>],
           commentCount = Some 2,
           createdAt = Some (IsoString ''2024-03-10T18:00:00.100Z''),
           poll = Some example_poll, post_id = ''p2''\<rparr> \<and>
   store (snd (voteOnPoll three_readings ''u1'' ''p2'' 1 commented_backend)) = store commented_backend \<and>
   fst (voteOnPoll three_readings ''u2'' ''p2'' 2 commented_backend) = None \<and>
   store (snd (voteOnPoll three_readings ''u2'' ''p2'' 2 commented_backend)) = store commented_backend \<and>
   fst (voteOnPoll three_readings ''u2'' ''p2'' 1 commented_backend) =
     Some \<lparr>post_author = alice_author, caption = Some ''poll'', reactions = Some Map.empty,
           comments = Some [first_comment\<lparr>comment_createdAt :=
                                            Some (IsoString ''2024-03-09T12:00:00.000Z'')\<rparr>,
                            second_comment\<lparr>comment_createdAt :=
                                             Some (IsoString ''2024-03-10T18:00:00.200Z'')\<rparr>],
           commentCount = Some 2,
           createdAt = Some (IsoString ''2024-03-10T18:00:00.100Z''),
           poll = Some \<lparr>question = ''Tea or coffee?'',
                        options = [\<lparr>option_text = ''Tea'', votes = 1, votedBy = [''u1'']\<rparr>,
                                   \<lparr>option_text = ''Coffee'', votes = 1, votedBy = [''u2'']\<rparr>]\<rparr>,
           post_id = ''p2''\<rparr> \<and>
   map_option poll (posts (store (snd (voteOnPoll three_readings ''u2'' ''p2'' 1 commented_backend))) ''p2'') =
     Some (Some \<lparr>question = ''Tea or coffee?'',
                 options = [\<lparr>option_text = ''Tea'', votes = 1, votedBy = [''u1'']\<rparr>,
                            \<lparr>option_text = ''Coffee'', votes = 1, votedBy = [''u2'']\<rparr>]\<rparr>)"
proof -
  have p0: "posts (store commented_backend) ''p2'' = Some commented_post"
    by (simp add: commented_backend_def)
  have p9: "posts (store commented_backend) ''p9'' = None"
    by (simp add: commented_backend_def)
  have pl: "poll commented_post = Some example_poll"
    by (simp add: commented_post_def)
  have v1: "\<exists>opt \<in> set (options example_poll). ''u1'' \<in> set (votedBy opt)"
    by (simp add: example_poll_def)
  have v2: "\<forall>opt \<in> set (options example_poll). ''u2'' \<notin> set (votedBy opt)"
    by (simp add: example_poll_def)
  have len: "length (options example_poll) = 2"
    by (simp add: example_poll_def)
  have d: "docToPost three_readings ''p2'' commented_post =
     \<lparr>post_author = alice_author, caption = Some ''poll'', reactions = Some Map.empty,
      comments = Some [first_comment\<lparr>comment_createdAt :=
                                       Some (IsoString ''2024-03-09T12:00:00.000Z'')\<rparr>,
                       second_comment\<lparr>comment_createdAt :=
                                        Some (IsoString ''2024-03-10T18:00:00.200Z'')\<rparr>],
      commentCount = Some 2,
      createdAt = Some (IsoString ''2024-03-10T18:00:00.100Z''),
      poll = Some example_poll, post_id = ''p2''\<rparr>"
    by (simp add: docToPost_def commented_post_def createdAt_iso_def is_Timestamp_def
          first_comment_def second_comment_def three_readings_def iso_march_9 iso_first_snapshot
          iso_second_snapshot)
  note a = voteOnPoll_single_vote [of commented_backend "''p9''" three_readings "''u2''" 0 commented_post example_poll]
  note c = voteOnPoll_single_vote [of commented_backend "''p2''" three_readings "''u1''" 1 commented_post example_poll]
  note e = voteOnPoll_single_vote [of commented_backend "''p2''" three_readings "''u2''" 2 commented_post example_poll]
  note f = voteOnPoll_single_vote [of commented_backend "''p2''" three_readings "''u2''" 1 commented_post example_poll]
  have r1: "fst (voteOnPoll three_readings ''u2'' ''p9'' 0 commented_backend) = None"
    using a p9 by simp
  have r2: "fst (voteOnPoll three_readings ''u1'' ''p2'' 1 commented_backend) =
              Some (docToPost three_readings ''p2'' commented_post)"
      "store (snd (voteOnPoll three_readings ''u1'' ''p2'' 1 commented_backend)) = store commented_backend"
    using c p0 pl v1 by blast+
  have r3: "fst (voteOnPoll three_readings ''u2'' ''p2'' 2 commented_backend) = None"
      "store (snd (voteOnPoll three_readings ''u2'' ''p2'' 2 commented_backend)) = store commented_backend"
    using e p0 pl v2 len by simp_all
  have r4: "fst (voteOnPoll three_readings ''u2'' ''p2'' 1 commented_backend) =
      Some ((docToPost three_readings ''p2'' commented_post)
              \<lparr>poll := Some (example_poll\<lparr>options := list_update (options example_poll) (nat 1)
                 ((options example_poll ! nat 1)\<lparr>votes := votes (options example_poll ! nat 1) + 1,
                    votedBy := votedBy (options example_poll ! nat 1) @ [''u2'']\<rparr>)\<rparr>)\<rparr>)"
      "store (snd (voteOnPoll three_readings ''u2'' ''p2'' 1 commented_backend)) =
      (store commented_backend)\<lparr>posts := (posts (store commented_backend))(''p2'' \<mapsto>
         commented_post\<lparr>poll := Some (example_poll\<lparr>options := list_update (options example_poll) (nat 1)
            ((options example_poll ! nat 1)\<lparr>votes := votes (options example_poll ! nat 1) + 1,
               votedBy := votedBy (options example_poll ! nat 1) @ [''u2'']\<rparr>)\<rparr>)\<rparr>)\<rparr>"
    using f p0 pl v2 len by (simp_all add: Let_def)
  show ?thesis
    using p0 p9 pl r1 r3
    by (simp add: r2 r4 d example_poll_def)
qed

subsection \<open>Accepting a friend request\<close>








subsection \<open>The example state\<close>

lemma example_users:
  "users (store example_backend) ''u1'' = Some alice" "users (store example_backend) ''u2'' = Some bob"
  by (simp_all add: example_backend_def example_db_def)

lemma example_group_stored: "groups (store example_backend) ''g1'' = Some example_group"
  by (simp add: example_backend_def example_db_def)

lemma example_calls: "calls example_backend = []"
  by (simp add: example_backend_def)

lemma toLowerCase_Alice: "toLowerCase ''Alice'' = ''alice''"
  by code_simp

subsection \<open>Group membership counter\<close>

text \<open>
  C3, at a concrete input. In the example group \<open>memberCount\<close> equals the number of
  members (one member, Alice). After \<open>joinGroup\<close> by Alice, who is already a member,
  the members are unchanged and the counter is 2; after \<open>leaveGroup\<close> by Bob, who is
  not a member, the members are unchanged and the counter is 0.
\<close>

theorem memberCount_drift:
  "group_members_and_count example_backend ''g1'' = Some ([alice_author], 1) \<and>
   fst (joinGroup ''u1'' ''g1'' [] example_backend) = Inr True \<and>
   group_members_and_count (snd (joinGroup ''u1'' ''g1'' [] example_backend)) ''g1'' = Some ([alice_author], 2) \<and>
   fst (leaveGroup ''u2'' ''g1'' example_backend) = True \<and>
   group_members_and_count (snd (leaveGroup ''u2'' ''g1'' example_backend)) ''g1'' = Some ([alice_author], 0)"
  by (simp add: group_members_and_count_def example_users example_group_stored joinGroup_def
        getUserProfileById_def getDoc_def updateDoc_def plain_write_def update_group_def
        arrayUnion_def increment_def alice_author_def leaveGroup_def runTransaction_def
        leaveGroup_body_def not_id_def example_group_def author_of_user_def docToUser_def alice_def
        Let_def)

text \<open>
  What does hold of the counter: \<open>createGroup\<close> stores a group whose counter matches
  its members; \<open>joinGroup\<close> keeps the match when the joining user's member object is
  not yet in the list; \<open>removeGroupMember\<close> keeps it when no two members share an id.
\<close>

lemma filter_other_keys:
  "a \<notin> f ` set xs \<Longrightarrow> filter (\<lambda>m. f m \<noteq> a) xs = xs"
  by (induction xs) auto

lemma length_filter_distinct_key:
  "distinct (map f xs) \<Longrightarrow> a \<in> f ` set xs \<Longrightarrow>
     Suc (length (filter (\<lambda>m. f m \<noteq> a) xs)) = length xs"
proof (induction xs)
  case Nil
  then show ?case by simp
next
  case (Cons x xs)
  show ?case
  proof (cases "f x = a")
    case True
    with Cons.prems have "a \<notin> f ` set xs" by auto
    then have "filter (\<lambda>m. f m \<noteq> a) xs = xs" by (rule filter_other_keys)
    with True show ?thesis by simp
  next
    case False
    with Cons.prems have "a \<in> f ` set xs" "distinct (map f xs)" by auto
    with Cons.IH have "Suc (length (filter (\<lambda>m. f m \<noteq> a) xs)) = length xs" by simp
    with False show ?thesis by simp
  qed
qed


lemma createGroup_count:
  "fst (createGroup cr nm descr cover priv approval cat newId serverNow now b) = Inr (k, g)
     \<Longrightarrow> count_matches_members g \<and>
         (\<exists>g'. groups (store (snd (createGroup cr nm descr cover priv approval cat newId serverNow now b))) k = Some g'
                \<and> count_matches_members g')"
  by (auto simp: createGroup_def addDoc_def plain_write_def set_group_def count_matches_members_def Let_def)

lemma joinGroup_new_member_count:
  assumes "users (store b) userId = Some u" "groups (store b) groupId = Some g"
    "count_matches_members g" "author_of_user (docToUser userId u) \<notin> set (members g)"
  shows "\<exists>g'. groups (store (snd (joinGroup userId groupId answrs b))) groupId = Some g'
              \<and> count_matches_members g'"
  using assms
  by (simp add: joinGroup_def getUserProfileById_def getDoc_def updateDoc_def plain_write_def
        update_group_def arrayUnion_def increment_def count_matches_members_def Let_def)

lemma removeGroupMember_count:
  assumes "groups (store b) groupId = Some g" "count_matches_members g"
    "distinct (map author_id (members g))"
  shows "\<exists>g'. groups (store (snd (removeGroupMember groupId u b))) groupId = Some g'
              \<and> count_matches_members g'"
proof (cases "user_id u \<in> author_id ` set (members g)")
  case True
  then have ex: "list_ex (\<lambda>m. author_id m = user_id u) (members g)"
    by (auto simp: list_ex_iff)
  from length_filter_distinct_key [OF assms(3) True]
  have "int (length (filter (\<lambda>m. author_id m \<noteq> user_id u) (members g))) = int (length (members g)) - 1"
    by simp
  with assms(1,2) ex show ?thesis
    by (simp add: removeGroupMember_def runTransaction_def removeGroupMember_body_def
        update_group_def increment_def count_matches_members_def not_id_def [abs_def] Let_def)
next
  case False
  then have ex: "\<not> list_ex (\<lambda>m. author_id m = user_id u) (members g)"
    by (force simp: list_ex_iff image_iff)
  from filter_other_keys [OF False]
  have "filter (\<lambda>m. author_id m \<noteq> user_id u) (members g) = members g" .
  with assms(1,2) ex show ?thesis
    by (simp add: removeGroupMember_def runTransaction_def removeGroupMember_body_def
        update_group_def increment_def count_matches_members_def not_id_def [abs_def] Let_def)
qed

subsection \<open>Which backend calls each operation issues\<close>

lemma snd_case_result:
  "snd (case x of (Inl e, b1) \<Rightarrow> (g e, b1) | (Inr a, b1) \<Rightarrow> (f a, b1)) = snd x"
  by (auto split: prod.splits sum.splits)

lemma calls_foldl_issue:
  "calls (foldl (\<lambda>b' c. issue (f c) b') b xs) = calls b @ map f xs"
  by (induction xs arbitrary: b) simp_all

lemma calls_plain_write: "calls (snd (plain_write c path w b)) = calls b @ [c]"
  by (simp add: plain_write_def split: option.splits)

lemma calls_reactToPost: "calls (snd (reactToPost postId userId r b)) = calls b @ [RunTransaction]"
  by (simp add: reactToPost_def snd_case_result runTransaction_calls)

lemma calls_reactToComment:
  "calls (snd (reactToComment postId commentId userId r b)) = calls b @ [RunTransaction]"
  by (simp add: reactToComment_def snd_case_result runTransaction_calls)

lemma calls_leaveGroup: "calls (snd (leaveGroup userId groupId b)) = calls b @ [RunTransaction]"
  by (simp add: leaveGroup_def snd_case_result runTransaction_calls)

lemma calls_removeGroupMember:
  "calls (snd (removeGroupMember groupId u b)) = calls b @ [RunTransaction]"
  by (simp add: removeGroupMember_def snd_case_result runTransaction_calls)

lemma calls_approveJoinRequest:
  "calls (snd (approveJoinRequest groupId userId b)) = calls b @ [RunTransaction]"
  by (simp add: approveJoinRequest_def snd_case_result runTransaction_calls)

lemma calls_acceptFriendRequest:
  "calls (snd (acceptFriendRequest cur req nid now b)) = calls b @ [RunTransaction]"
  by (simp add: acceptFriendRequest_def runTransaction_calls)

lemma calls_getUserProfileById: "calls (snd (getUserProfileById uid b)) = calls b @ [GetDoc ''users'']"
  by (simp add: getUserProfileById_def getDoc_def)

lemma calls_joinGroup:
  "calls (snd (joinGroup userId groupId answrs b)) =
     calls b @ (if users (store b) userId = None then [GetDoc ''users'']
                else [GetDoc ''users'', UpdateDoc ''groups''])"
  by (auto simp: joinGroup_def getUserProfileById_def getDoc_def updateDoc_def plain_write_def Let_def
        split: option.splits prod.splits sum.splits)

lemma calls_addFriend:
  "calls (snd (addFriend cur tgt now b)) =
     calls b @ (if cur = [] then []
                else if users (store b) cur = None \<or> users (store b) tgt = None
                then [GetDoc ''users'', GetDoc ''users'']
                else [GetDoc ''users'', GetDoc ''users'', SetDoc ''friendRequests''])"
  by (auto simp: addFriend_def getUserProfileById_def getDoc_def setDoc_def plain_write_def Let_def
        set_friendRequest_def split: option.splits prod.splits sum.splits)

lemma calls_isUsernameTaken: "calls (snd (isUsernameTaken username b)) = calls b @ [GetDoc ''usernames'']"
  by (simp add: isUsernameTaken_def getDoc_def)

lemma calls_updateGroupSettings:
  "calls (snd (updateGroupSettings groupId st b)) = calls b @ [UpdateDoc ''groups'']"
  by (simp add: updateGroupSettings_def updateDoc_def snd_case_result calls_plain_write)

lemma calls_pinPost:
  "calls (snd (pinPost groupId postId b)) = calls b @ [UpdateDoc ''groups'']"
  by (simp add: pinPost_def updateDoc_def snd_case_result calls_plain_write)

lemma calls_checkFriendshipStatus:
  "calls (snd (checkFriendshipStatus cur prof b)) =
     calls b @ (if (case users (store b) cur of None \<Rightarrow> False | Some u \<Rightarrow> prof \<in> set (friendIds u))
                then [GetDoc ''users'']
                else [GetDoc ''users'', GetDoc ''friendRequests'', GetDoc ''friendRequests''])"
  by (auto simp: checkFriendshipStatus_def getUserProfileById_def getDoc_def Let_def docToUser_def
        split: option.splits prod.splits)

lemma calls_listenToNotifications:
  "calls (snd (listenToNotifications z clock userId b)) =
     calls b @ map OnSnapshot (subscribed_shards z clock)"
  by (simp add: listenToNotifications_def calls_foldl_issue)

text \<open>
  C4, as stated, at a concrete input. \<open>joinGroup\<close> by Bob on the example group issues
  a one-shot read and a plain \<open>updateDoc\<close>, no transaction, and the group is written;
  \<open>addFriend\<close> from Alice to Bob issues two one-shot reads and a plain \<open>setDoc\<close>,
  no transaction, and the request document is written.
\<close>

theorem plain_write_counterexample:
  "calls (snd (joinGroup ''u2'' ''g1'' [] example_backend)) = [GetDoc ''users'', UpdateDoc ''groups''] \<and>
   group_members_and_count (snd (joinGroup ''u2'' ''g1'' [] example_backend)) ''g1'' =
     Some ([alice_author, bob_author], 2) \<and>
   calls (snd (addFriend ''u1'' ''u2'' 0 example_backend)) =
     [GetDoc ''users'', GetDoc ''users'', SetDoc ''friendRequests''] \<and>
   map_option status (friendRequests (store (snd (addFriend ''u1'' ''u2'' 0 example_backend))) ''u1_u2'') =
     Some (Some ''pending'')"
proof -
  have j: "calls (snd (joinGroup ''u2'' ''g1'' [] example_backend)) = [GetDoc ''users'', UpdateDoc ''groups'']"
    by (simp add: calls_joinGroup example_users example_calls)
  have g: "group_members_and_count (snd (joinGroup ''u2'' ''g1'' [] example_backend)) ''g1'' =
     Some ([alice_author, bob_author], 2)"
    by (simp add: group_members_and_count_def example_users example_group_stored joinGroup_def
        getUserProfileById_def getDoc_def updateDoc_def plain_write_def update_group_def
        arrayUnion_def increment_def alice_author_def bob_author_def example_group_def
        author_of_user_def docToUser_def alice_def bob_def Let_def)
  have a: "calls (snd (addFriend ''u1'' ''u2'' 0 example_backend)) =
     [GetDoc ''users'', GetDoc ''users'', SetDoc ''friendRequests'']"
    by (simp add: calls_addFriend example_users example_calls)
  have f: "map_option status (friendRequests (store (snd (addFriend ''u1'' ''u2'' 0 example_backend))) ''u1_u2'') =
     Some (Some ''pending'')"
    by (simp add: addFriend_def getUserProfileById_def getDoc_def example_users setDoc_def
        plain_write_def set_friendRequest_def request_key_def Let_def)
  from j g a f show ?thesis by simp
qed

text \<open>
  C4, amended. \<open>reactToPost\<close>, \<open>reactToComment\<close>, \<open>acceptFriendRequest\<close>,
  \<open>leaveGroup\<close>, \<open>removeGroupMember\<close> and \<open>approveJoinRequest\<close> each issue
  exactly one backend call, a transaction. \<open>joinGroup\<close> issues a one-shot read of the
  user and, when the user exists, one plain \<open>updateDoc\<close> of the group;
  \<open>addFriend\<close> issues nothing without a current user id, otherwise two one-shot reads
  of the users and, when both exist, one plain \<open>setDoc\<close> of the request.
\<close>

theorem write_paths:
  "calls (snd (reactToPost postId userId r b)) = calls b @ [RunTransaction] \<and>
   calls (snd (reactToComment postId commentId userId r b)) = calls b @ [RunTransaction] \<and>
   calls (snd (acceptFriendRequest cur req nid now b)) = calls b @ [RunTransaction] \<and>
   calls (snd (leaveGroup userId groupId b)) = calls b @ [RunTransaction] \<and>
   calls (snd (removeGroupMember groupId u b)) = calls b @ [RunTransaction] \<and>
   calls (snd (approveJoinRequest groupId userId b)) = calls b @ [RunTransaction] \<and>
   calls (snd (joinGroup userId groupId answrs b)) =
     calls b @ (if users (store b) userId = None then [GetDoc ''users'']
                else [GetDoc ''users'', UpdateDoc ''groups'']) \<and>
   calls (snd (addFriend cur tgt now b)) =
     calls b @ (if cur = [] then []
                else if users (store b) cur = None \<or> users (store b) tgt = None
                then [GetDoc ''users'', GetDoc ''users'']
                else [GetDoc ''users'', GetDoc ''users'', SetDoc ''friendRequests''])"
  by (simp only: calls_reactToPost calls_reactToComment calls_acceptFriendRequest calls_leaveGroup
        calls_removeGroupMember calls_approveJoinRequest calls_joinGroup calls_addFriend simp_thms)

text \<open>
  C6, as stated, at a concrete input. \<open>isUsernameTaken\<close> issues a one-shot
  \<open>getDoc\<close> and \<open>pinPost\<close> a plain \<open>updateDoc\<close> that changes the group; neither
  call is a subscription or a transaction.
\<close>

theorem one_shot_read_counterexample:
  "calls (snd (isUsernameTaken ''Alice'' example_backend)) = [GetDoc ''usernames''] \<and>
   fst (isUsernameTaken ''Alice'' example_backend) = True \<and>
   \<not> list_all listener_or_transaction (calls (snd (isUsernameTaken ''Alice'' example_backend))) \<and>
   calls (snd (pinPost ''g1'' ''p1'' example_backend)) = [UpdateDoc ''groups''] \<and>
   \<not> list_all listener_or_transaction (calls (snd (pinPost ''g1'' ''p1'' example_backend))) \<and>
   map_option pinnedPostId (groups (store (snd (pinPost ''g1'' ''p1'' example_backend))) ''g1'') =
     Some (Some ''p1'')"
proof -
  have i: "calls (snd (isUsernameTaken ''Alice'' example_backend)) = [GetDoc ''usernames'']"
    by (simp add: calls_isUsernameTaken example_calls)
  have t: "fst (isUsernameTaken ''Alice'' example_backend) = True"
    by (simp add: isUsernameTaken_def getDoc_def toLowerCase_Alice
        example_backend_def example_db_def)
  have p: "calls (snd (pinPost ''g1'' ''p1'' example_backend)) = [UpdateDoc ''groups'']"
    by (simp add: calls_pinPost example_calls)
  have s: "map_option pinnedPostId (groups (store (snd (pinPost ''g1'' ''p1'' example_backend))) ''g1'') =
     Some (Some ''p1'')"
    by (simp add: pinPost_def updateDoc_def plain_write_def update_group_def example_group_stored)
  from i t p s show ?thesis by (simp add: listener_or_transaction_def)
qed

text \<open>
  C6, amended. The store is reached through one-shot reads and plain writes as well as
  through subscriptions and transactions: \<open>isUsernameTaken\<close> and
  \<open>getUserProfileById\<close> each issue exactly one \<open>getDoc\<close>;
  \<open>checkFriendshipStatus\<close> issues one \<open>getDoc\<close> when the users are friends and
  three otherwise; \<open>updateGroupSettings\<close> and \<open>pinPost\<close> each issue exactly one
  plain \<open>updateDoc\<close>; \<open>listenToNotifications\<close> registers one \<open>onSnapshot\<close>
  listener per subscribed shard; \<open>voteOnPoll\<close> issues one transaction.
\<close>

theorem access_paths:
  "calls (snd (isUsernameTaken username b)) = calls b @ [GetDoc ''usernames''] \<and>
   calls (snd (getUserProfileById uid b)) = calls b @ [GetDoc ''users''] \<and>
   calls (snd (checkFriendshipStatus cur prof b)) =
     calls b @ (if (case users (store b) cur of None \<Rightarrow> False | Some u \<Rightarrow> prof \<in> set (friendIds u))
                then [GetDoc ''users'']
                else [GetDoc ''users'', GetDoc ''friendRequests'', GetDoc ''friendRequests'']) \<and>
   calls (snd (updateGroupSettings groupId st b)) = calls b @ [UpdateDoc ''groups''] \<and>
   calls (snd (pinPost groupId postId b)) = calls b @ [UpdateDoc ''groups''] \<and>
   calls (snd (listenToNotifications z clock userId b)) =
     calls b @ map OnSnapshot (subscribed_shards z clock) \<and>
   calls (snd (voteOnPoll clock userId postId i b)) = calls b @ [RunTransaction]"
proof -
  have v: "calls (snd (voteOnPoll clock userId postId i b)) = calls b @ [RunTransaction]"
    by (simp add: voteOnPoll_def snd_case_result runTransaction_calls)
  show ?thesis
    by (simp only: calls_isUsernameTaken calls_getUserProfileById calls_checkFriendshipStatus
          calls_updateGroupSettings calls_pinPost calls_listenToNotifications v simp_thms)
qed

subsection \<open>The CDN upload helper\<close>

text \<open>
  C7. \<open>uploadMediaToCloudinary(file, fileName)\<close> posts the file to the media host's
  upload endpoint. For a response that is \<open>ok\<close> and carries a JSON body it returns
  that body's \<open>secure_url\<close> together with its \<open>resource_type\<close>; for a response
  that is not \<open>ok\<close> it throws and returns nothing.
\<close>

theorem uploadMediaToCloudinary_result:
  "(fetch (upload_endpoint f)
      \<lparr>form_file = f, form_fileName = fileName, upload_preset = CLOUDINARY_UPLOAD_PRESET\<rparr>
      = Response True (Some data)
    \<longrightarrow> uploadMediaToCloudinary fetch f fileName =
          Inr \<lparr>url = secure_url data, result_type = resource_type data\<rparr>) \<and>
   (fetch (upload_endpoint f)
      \<lparr>form_file = f, form_fileName = fileName, upload_preset = CLOUDINARY_UPLOAD_PRESET\<rparr>
      = Response False body
    \<longrightarrow> (\<exists>e. uploadMediaToCloudinary fetch f fileName = Inl e)) \<and>
   upload_endpoint f =
     ''https://api.cloudinary.com/v1_1/deeieh2bd/'' @ resourceType_of f @ ''/upload''"
  by (auto simp: uploadMediaToCloudinary_def upload_endpoint_def CLOUDINARY_CLOUD_NAME_def
        split: option.splits)

theorem uploadMediaToCloudinary_result_witness:
  "uploadMediaToCloudinary (\<lambda>_ _. Response True (Some example_upload_body)) example_file ''x.png'' =
     Inr \<lparr>url = Some ''https://res.cloudinary.com/deeieh2bd/image/upload/v1/x.png'',
          result_type = Some ''image''\<rparr> \<and>
   (\<exists>e. uploadMediaToCloudinary (\<lambda>_ _. Response False None) example_file ''x.png'' = Inl e)"
  using uploadMediaToCloudinary_result
          [of "\<lambda>_ _. Response True (Some example_upload_body)" example_file "''x.png''" example_upload_body]
        uploadMediaToCloudinary_result
          [of "\<lambda>_ _. Response False None" example_file "''x.png''" _ None]
  by (simp add: example_upload_body_def)

subsection \<open>Suppressed notifications\<close>

lemma createNotification_self:
  "createNotification z clock nid (user_id actor) ty actor opts b = b"
  by (simp add: createNotification_def)

lemma createNotification_disabled:
  assumes "users (store b) recipient = Some rcp" "\<not> isEnabled (notificationSettings rcp) ty"
  shows "store (createNotification z clock nid recipient ty actor opts b) = store b"
    and "calls (createNotification z clock nid recipient ty actor opts b) = calls b \<or>
         calls (createNotification z clock nid recipient ty actor opts b) = calls b @ [GetDoc ''users'']"
  using assms by (simp_all add: createNotification_def getDoc_def)

text \<open>
  C9. When the recipient is the acting user, \<open>_createNotification\<close> returns without
  touching the backend. When the recipient's \<open>notificationSettings\<close> hold
  \<open>false\<close> for the switch of the notification's type (\<open>likes\<close> for a like,
  \<open>comments\<close> for a comment, \<open>friendRequests\<close> for a friend request,
  \<open>campaignUpdates\<close> for a campaign approval or rejection, \<open>groupPosts\<close> for a
  group post), the store is left as it was: at most the recipient's document is read and
  no document is added.
\<close>

theorem createNotification_suppressed:
  "(recipient = user_id actor \<longrightarrow> createNotification z clock nid recipient ty actor opts b = b) \<and>
   (users (store b) recipient = Some rcp \<and> notificationSettings rcp = Some st \<and>
    (ty = Like \<and> likes st = Some False \<or>
     ty = Comment \<and> comments_setting st = Some False \<or>
     ty = Friend_request \<and> friendRequests_setting st = Some False \<or>
     (ty = Campaign_approved \<or> ty = Campaign_rejected) \<and> campaignUpdates st = Some False \<or>
     ty = Group_post \<and> groupPosts st = Some False)
    \<longrightarrow> store (createNotification z clock nid recipient ty actor opts b) = store b \<and>
        (calls (createNotification z clock nid recipient ty actor opts b) = calls b \<or>
         calls (createNotification z clock nid recipient ty actor opts b) = calls b @ [GetDoc ''users'']))"
proof (intro conjI impI)
  assume "recipient = user_id actor"
  then show "createNotification z clock nid recipient ty actor opts b = b"
    by (simp add: createNotification_self)
next
  assume h: "users (store b) recipient = Some rcp \<and> notificationSettings rcp = Some st \<and>
    (ty = Like \<and> likes st = Some False \<or>
     ty = Comment \<and> comments_setting st = Some False \<or>
     ty = Friend_request \<and> friendRequests_setting st = Some False \<or>
     (ty = Campaign_approved \<or> ty = Campaign_rejected) \<and> campaignUpdates st = Some False \<or>
     ty = Group_post \<and> groupPosts st = Some False)"
  then have off: "\<not> isEnabled (notificationSettings rcp) ty"
    by (auto simp: isEnabled_def)
  from h have u: "users (store b) recipient = Some rcp" by simp
  show "store (createNotification z clock nid recipient ty actor opts b) = store b"
    by (rule createNotification_disabled(1) [OF u off])
  show "calls (createNotification z clock nid recipient ty actor opts b) = calls b \<or>
         calls (createNotification z clock nid recipient ty actor opts b) = calls b @ [GetDoc ''users'']"
    by (rule createNotification_disabled(2) [OF u off])
qed

theorem createNotification_suppressed_witness:
  "''u1'' = user_id (docToUser ''u1'' alice) \<and>
   createNotification utc_zone (\<lambda>_. 0) ''n1'' ''u1'' Like (docToUser ''u1'' alice) no_options example_backend
     = example_backend \<and>
   users (store example_backend) ''u2'' = Some bob \<and>
   notificationSettings bob = Some all_switches_off \<and>
   likes all_switches_off = Some False \<and> campaignUpdates all_switches_off = Some False \<and>
   store (createNotification utc_zone (\<lambda>_. 0) ''n1'' ''u2'' Like (docToUser ''u1'' alice) no_options example_backend)
     = store example_backend \<and>
   store (createNotification utc_zone (\<lambda>_. 0) ''n1'' ''u2'' Campaign_rejected (docToUser ''u1'' alice) no_options
            example_backend)
     = store example_backend"
proof -
  have self: "''u1'' = user_id (docToUser ''u1'' alice)"
    by (simp add: docToUser_def)
  have st: "notificationSettings bob = Some all_switches_off"
    by (simp add: bob_def all_switches_off_def)
  have off: "likes all_switches_off = Some False" "campaignUpdates all_switches_off = Some False"
    by (simp_all add: all_switches_off_def)
  note a = createNotification_suppressed
             [of "''u1''" "docToUser ''u1'' alice" utc_zone "\<lambda>_. 0" "''n1''" Like no_options
                 example_backend]
  note l = createNotification_suppressed
             [of "''u2''" "docToUser ''u1'' alice" utc_zone "\<lambda>_. 0" "''n1''" Like no_options
                 example_backend bob all_switches_off]
  note c = createNotification_suppressed
             [of "''u2''" "docToUser ''u1'' alice" utc_zone "\<lambda>_. 0" "''n1''" Campaign_rejected
                 no_options example_backend bob all_switches_off]
  have r1: "createNotification utc_zone (\<lambda>_. 0) ''n1'' ''u1'' Like (docToUser ''u1'' alice) no_options example_backend
     = example_backend"
    using a self by blast
  have r2: "store (createNotification utc_zone (\<lambda>_. 0) ''n1'' ''u2'' Like (docToUser ''u1'' alice) no_options example_backend)
     = store example_backend"
    using l example_users(2) st off by blast
  have r3: "store (createNotification utc_zone (\<lambda>_. 0) ''n1'' ''u2'' Campaign_rejected (docToUser ''u1'' alice) no_options
            example_backend) = store example_backend"
    using c example_users(2) st off by blast
  from self r1 example_users(2) st off r2 r3 show ?thesis by blast
qed

subsection \<open>Notifications sharded by day\<close>

lemma example_shards: "shards (store example_backend) = Map.empty"
  by (simp add: example_backend_def example_db_def empty_db_def)

lemma name_before_midnight:
  "getDailyCollectionName utc_zone (DateObj 1704153599999) = ''notifications_2024_01_01''"
  by code_simp

lemma name_after_midnight:
  "getDailyCollectionName utc_zone (DateString ''2024-01-02T00:00:00.000Z'') = ''notifications_2024_01_02''"
  by code_simp

lemma iso_after_midnight: "toISOString 1704153600000 = ''2024-01-02T00:00:00.000Z''"
  by code_simp

lemma midnight_shard:
  "shards (store backend_after_midnight_like) =
     [''notifications_2024_01_01'' \<mapsto>
        [''n1'' \<mapsto>
           \<lparr>recipientId = Some ''u1'', notification_type = Like,
            notification_user = bob_author, read = False,
            notification_createdAt = IsoString ''2024-01-02T00:00:00.000Z'',
            notification_post = None, notification_comment = None,
            notification_groupId = None, notification_groupName = None,
            campaignName = None, rejectionReason = None, notification_message = None\<rparr>]]"
  by (simp add: backend_after_midnight_like_def createNotification_def docToUser_def getDoc_def
        example_users isEnabled_def alice_def midnight_clock_def name_before_midnight
        iso_after_midnight addDoc_def plain_write_def set_shard_doc_def sub_collection_def
        example_shards no_options_def bob_author_def Let_def)

text \<open>
  C5, at a concrete input. \<open>_createNotification\<close> reads the clock once for the shard
  name and once more for \<open>createdAt\<close>. With the first read at 2024-01-01T23:59:59.999Z
  and the second at 2024-01-02T00:00:00.000Z the notification is written to
  \<open>notifications_2024_01_01\<close> with a \<open>createdAt\<close> of the next day;
  \<open>markNotificationsAsRead\<close> on that stored notification computes
  \<open>notifications_2024_01_02\<close>, its batch fails on the missing document, and the stored
  notification stays unread.
\<close>

theorem shard_round_trip_breaks_at_midnight:
  "getDailyCollectionName utc_zone (DateObj (midnight_clock 0)) = ''notifications_2024_01_01'' \<and>
   map (\<lambda>n. (notification_id n, notification_createdAt n, read n))
     (stored_notification backend_after_midnight_like ''notifications_2024_01_01'' ''n1'') =
     [(''n1'', IsoString ''2024-01-02T00:00:00.000Z'', False)] \<and>
   groupedByCollection utc_zone (stored_notification backend_after_midnight_like ''notifications_2024_01_01'' ''n1'') =
     [(''notifications_2024_01_02'', [''n1''])] \<and>
   fst (markNotificationsAsRead utc_zone ''u1''
          (stored_notification backend_after_midnight_like ''notifications_2024_01_01'' ''n1'')
          backend_after_midnight_like) = Inl (NotFound ''batch'') \<and>
   store (snd (markNotificationsAsRead utc_zone ''u1''
          (stored_notification backend_after_midnight_like ''notifications_2024_01_01'' ''n1'')
          backend_after_midnight_like)) = store backend_after_midnight_like"
proof -
  have n: "getDailyCollectionName utc_zone (DateObj (midnight_clock 0)) = ''notifications_2024_01_01''"
    by (simp add: midnight_clock_def name_before_midnight)
  have s: "stored_notification backend_after_midnight_like ''notifications_2024_01_01'' ''n1'' =
     [with_id ''n1''
        \<lparr>recipientId = Some ''u1'', notification_type = Like,
         notification_user = bob_author, read = False,
         notification_createdAt = IsoString ''2024-01-02T00:00:00.000Z'',
         notification_post = None, notification_comment = None,
         notification_groupId = None, notification_groupName = None,
         campaignName = None, rejectionReason = None, notification_message = None\<rparr>]"
    by (simp add: stored_notification_def midnight_shard sub_collection_def)
  have g: "groupedByCollection utc_zone (stored_notification backend_after_midnight_like ''notifications_2024_01_01'' ''n1'') =
     [(''notifications_2024_01_02'', [''n1''])]"
    by (simp add: s groupedByCollection_def createdAt_string_def with_id_def name_after_midnight)
  have m: "markNotificationsAsRead utc_zone ''u1''
          (stored_notification backend_after_midnight_like ''notifications_2024_01_01'' ''n1'')
          backend_after_midnight_like =
        (Inl (NotFound ''batch''), issue BatchCommit backend_after_midnight_like)"
    by (simp add: markNotificationsAsRead_def g mark_read_writes_def batch_commit_def
          update_shard_doc_def midnight_shard sub_collection_def)
       (simp add: s has_string_createdAt_def with_id_def)
  from n g m show ?thesis by (simp add: s with_id_def)
qed

lemma name_march_9: "getDailyCollectionName utc_zone (DateObj 1709985600000) = ''notifications_2024_03_09''"
  by code_simp

lemma name_march_10: "getDailyCollectionName utc_zone (DateObj 1710072000000) = ''notifications_2024_03_10''"
  by code_simp

lemma parse_first_snapshot: "Date_parse utc_zone ''2024-03-10T18:00:00.100Z'' = Some 1710093600100"
  by code_simp

lemma parse_second_snapshot: "Date_parse utc_zone ''2024-03-10T18:00:00.200Z'' = Some 1710093600200"
  by code_simp

lemma two_days_shards:
  "shards (store backend_two_days) =
     [''notifications_2024_03_09'' \<mapsto>
        [''b'' \<mapsto>
           \<lparr>recipientId = Some ''u1'', notification_type = Comment,
            notification_user = bob_author, read = False,
            notification_createdAt = IsoString ''2024-03-09T12:00:00.000Z'',
            notification_post = None, notification_comment = None,
            notification_groupId = None, notification_groupName = None,
            campaignName = None, rejectionReason = None, notification_message = None\<rparr>],
      ''notifications_2024_03_10'' \<mapsto>
        [''a'' \<mapsto>
           \<lparr>recipientId = Some ''u1'', notification_type = Like,
            notification_user = bob_author, read = False,
            notification_createdAt = IsoString ''2024-03-10T12:00:00.000Z'',
            notification_post = None, notification_comment = None,
            notification_groupId = None, notification_groupName = None,
            campaignName = None, rejectionReason = None, notification_message = None\<rparr>]]"
  by (simp add: backend_two_days_def createNotification_def docToUser_def getDoc_def
        example_users isEnabled_def alice_def name_march_9 name_march_10 iso_march_9 iso_march_10
        addDoc_def plain_write_def set_shard_doc_def sub_collection_def
        example_shards no_options_def bob_author_def Let_def)

lemma utc_shard_today:
  "shard_for_iteration utc_zone (\<lambda>_. 1710093600000) 0 = ''notifications_2024_03_10''"
  by code_simp

lemma utc_shard_yesterday:
  "shard_for_iteration utc_zone (\<lambda>_. 1710093600000) (Suc 0) = ''notifications_2024_03_09''"
  by code_simp

text \<open>
  What the callback's list does satisfy: it is ordered by the delivered \<open>createdAt\<close>
  values, latest first, holds at most fifty notifications, and each of them comes from a
  shard's latest snapshot.
\<close>

lemma processAndCallback_sorted:
  "sorted (map (\<lambda>n. - getTime z n) (processAndCallback z dn))"
proof -
  let ?xs = "concat (map snd dn)"
  have "sorted (map (\<lambda>n. - getTime z n) (sort_key (\<lambda>n. - getTime z n) ?xs))"
    by (rule sorted_sort_key)
  then have "sorted (take 50 (map (\<lambda>n. - getTime z n) (sort_key (\<lambda>n. - getTime z n) ?xs)))"
    by (rule sorted_wrt_take)
  then show ?thesis
    by (simp add: processAndCallback_def take_map)
qed

lemma processAndCallback_length: "length (processAndCallback z dn) \<le> 50"
  by (simp add: processAndCallback_def)

lemma processAndCallback_subset:
  "set (processAndCallback z dn) \<subseteq> set (concat (map snd dn))"
proof -
  have "set (take 50 (sort_key (\<lambda>n. - getTime z n) (concat (map snd dn))))
          \<subseteq> set (sort_key (\<lambda>n. - getTime z n) (concat (map snd dn)))"
    by (rule set_take_subset)
  then show ?thesis
    by (simp add: processAndCallback_def)
qed

text \<open>
  C8, at a concrete input. Alice has a notification \<open>b\<close> created on 2024-03-09 at
  noon and a notification \<open>a\<close> created on 2024-03-10 at noon, each in its day's shard,
  and both shards are among those a listener started on 2024-03-10 at 18:00 UTC
  subscribes to. The snapshot of the later shard is handled first, the snapshot of the
  earlier shard a tenth of a second later. The callback then receives \<open>b\<close> before
  \<open>a\<close>, the older notification first, and each with the time its snapshot was
  handled in place of its stored \<open>createdAt\<close>.
\<close>

theorem listener_orders_by_snapshot_time:
  "map (\<lambda>n. (notification_id n, notification_createdAt n))
     (stored_notification backend_two_days ''notifications_2024_03_10'' ''a'' @
      stored_notification backend_two_days ''notifications_2024_03_09'' ''b'') =
     [(''a'', IsoString ''2024-03-10T12:00:00.000Z''), (''b'', IsoString ''2024-03-09T12:00:00.000Z'')] \<and>
   subscribed_shards utc_zone (\<lambda>_. 1710093600000) ! 0 = ''notifications_2024_03_10'' \<and>
   subscribed_shards utc_zone (\<lambda>_. 1710093600000) ! 1 = ''notifications_2024_03_09'' \<and>
   map (\<lambda>n. (notification_id n, notification_createdAt n)) (snd after_first_snapshot) =
     [(''a'', IsoString ''2024-03-10T18:00:00.100Z'')] \<and>
   map (\<lambda>n. (notification_id n, notification_createdAt n)) (snd after_second_snapshot) =
     [(''b'', IsoString ''2024-03-10T18:00:00.200Z''), (''a'', IsoString ''2024-03-10T18:00:00.100Z'')]"
proof -
  have stored: "map (\<lambda>n. (notification_id n, notification_createdAt n))
     (stored_notification backend_two_days ''notifications_2024_03_10'' ''a'' @
      stored_notification backend_two_days ''notifications_2024_03_09'' ''b'') =
     [(''a'', IsoString ''2024-03-10T12:00:00.000Z''), (''b'', IsoString ''2024-03-09T12:00:00.000Z'')]"
    by (simp add: stored_notification_def two_days_shards sub_collection_def with_id_def)
  have sub: "subscribed_shards utc_zone (\<lambda>_. 1710093600000) ! 0 = ''notifications_2024_03_10''"
      "subscribed_shards utc_zone (\<lambda>_. 1710093600000) ! 1 = ''notifications_2024_03_09''"
    by (simp_all add: subscribed_shards_def utc_shard_today utc_shard_yesterday del: upt_Suc)
  have first: "map (\<lambda>n. (notification_id n, notification_createdAt n)) (snd after_first_snapshot) =
     [(''a'', IsoString ''2024-03-10T18:00:00.100Z'')]"
    by (simp add: after_first_snapshot_def on_snapshot_def query_shard_def two_days_shards
        sub_collection_def snapshot_notification_def iso_first_snapshot processAndCallback_def
        Let_def)
  have second: "map (\<lambda>n. (notification_id n, notification_createdAt n)) (snd after_second_snapshot) =
     [(''b'', IsoString ''2024-03-10T18:00:00.200Z''), (''a'', IsoString ''2024-03-10T18:00:00.100Z'')]"
    by (simp add: after_second_snapshot_def after_first_snapshot_def on_snapshot_def query_shard_def
        two_days_shards sub_collection_def snapshot_notification_def iso_first_snapshot
        iso_second_snapshot processAndCallback_def getTime_def parse_first_snapshot
        parse_second_snapshot Let_def)
  from stored sub first second show ?thesis by simp
qed

text \<open>
  The subscribed shards on a host that observes daylight saving time. Started at
  2024-11-05T00:30:00Z on a host that was one hour ahead of UTC until 2024-10-27, the loop's
  iterations 8 and 9 subscribe to the shards of 2024-10-28 and 2024-10-26, and iteration
  29 to the shard of 2024-10-06, thirty days before the first.
\<close>

lemma shards_across_clock_change:
  "shard_for_iteration london_zone (\<lambda>_. 1730766600000) 0 = ''notifications_2024_11_05'' \<and>
   shard_for_iteration london_zone (\<lambda>_. 1730766600000) 8 = ''notifications_2024_10_28'' \<and>
   shard_for_iteration london_zone (\<lambda>_. 1730766600000) 9 = ''notifications_2024_10_26'' \<and>
   shard_for_iteration london_zone (\<lambda>_. 1730766600000) 29 = ''notifications_2024_10_06''"
  by code_simp

end
